theory Spec2Isabelle
  imports Complex_Main "HOL-Library.Signed_Division"
begin

section \<open>Conventions of the embedding\<close>

text \<open>
  The measurement tool is written in Go. Its values are embedded as follows.
  \<^item> \<open>float64\<close> is \<^typ>\<open>real\<close>, with no NaN and no infinity. Where Go would produce NaN
    or an infinity (a float division by zero) the model returns an explicit error value
    instead. Sums, differences, quotients and the conversion of seconds to milliseconds
    are exact. The one place where rounding decides which value is returned, the index
    computation of \<open>percentile\<close>, rounds as the code does: \<open>f64_round\<close> below is the
    rounding of a real number to the nearest \<open>float64\<close>, ties to even.
  \<^item> \<open>int\<close> is \<^typ>\<open>int\<close>; \<open>time.Duration\<close> is an \<^typ>\<open>int\<close> number of nanoseconds.
  \<^item> \<open>string\<close> is a list of bytes; the Chinese message prefixes of the source are
    written as their UTF-8 bytes.
  \<^item> a run-time panic (slice index out of range) is the left summand of a sum type.
\<close>

datatype error = IndexOutOfRange | FloatDivisionByZero

text \<open>Sequencing of fallible computations (the first failure wins).\<close>

definition bind_err :: "error + 'a \<Rightarrow> ('a \<Rightarrow> error + 'b) \<Rightarrow> error + 'b" where
  "bind_err m f = (case m of Inl e \<Rightarrow> Inl e | Inr x \<Rightarrow> f x)"

text \<open>Go's conversion \<open>int(f)\<close> of a float: the fraction is discarded (truncation toward zero).\<close>

definition float_to_int :: "real \<Rightarrow> int" where
  "float_to_int x = (if 0 \<le> x then \<lfloor>x\<rfloor> else \<lceil>x\<rceil>)"

text \<open>The slice read \<open>xs[i]\<close>: it panics outside \<open>0 \<le> i < len(xs)\<close>.\<close>

definition index_at :: "'a list \<Rightarrow> int \<Rightarrow> error + 'a" where
  "index_at xs i =
     (if 0 \<le> i \<and> i < int (length xs) then Inr (xs ! nat i) else Inl IndexOutOfRange)"

text \<open>
  Float division \<open>x / y\<close>. Go yields NaN or an infinity when \<open>y\<close> is zero; the model has
  no such values and reports the event.
\<close>

definition fdiv :: "real \<Rightarrow> real \<Rightarrow> error + real" where
  "fdiv x y = (if y = 0 then Inl FloatDivisionByZero else Inr (x / y))"

subsection \<open>Rounding to float64\<close>

text \<open>
  A \<open>float64\<close> has a 53 bit significand and a binary exponent between -1022 and 1023.
  \<open>f64_exponent x\<close> is the exponent of the binade that holds \<open>x\<close>: the number of times
  \<open>\<bar>x\<bar>\<close> can be halved before it falls below 2, or minus the number of times it must be
  doubled to reach 1, the latter at most 1022 times (below that the numbers are
  subnormal and share the exponent -1022). The spacing of the \<open>float64\<close> values in that
  binade is \<open>pow2 (f64_exponent x - 52)\<close>, and \<open>f64_round x\<close> is the multiple of the
  spacing nearest to \<open>x\<close>, the even multiple in a tie. Magnitudes beyond the largest
  \<open>float64\<close>, which Go rounds to an infinity, do not occur in what follows.
\<close>

definition pow2 :: "int \<Rightarrow> real" where
  "pow2 k = (if 0 \<le> k then 2 ^ nat k else 1 / 2 ^ nat (- k))"

fun halvings :: "nat \<Rightarrow> real \<Rightarrow> int" where
  "halvings 0 x = 0"
| "halvings (Suc n) x = (if 2 \<le> x then 1 + halvings n (x / 2) else 0)"

fun doublings :: "nat \<Rightarrow> real \<Rightarrow> int" where
  "doublings 0 x = 0"
| "doublings (Suc n) x = (if x < 1 then 1 + doublings n (2 * x) else 0)"

definition f64_exponent :: "real \<Rightarrow> int" where
  "f64_exponent x = (if 1 \<le> \<bar>x\<bar> then halvings 1023 \<bar>x\<bar> else - doublings 1022 \<bar>x\<bar>)"

definition round_half_even :: "real \<Rightarrow> int" where
  "round_half_even y =
     (let f = \<lfloor>y\<rfloor>; d = y - of_int f
      in if d < 1 / 2 then f else if 1 / 2 < d then f + 1 else if even f then f else f + 1)"

definition f64_round :: "real \<Rightarrow> real" where
  "f64_round x =
     (let ulp = pow2 (f64_exponent x - 52)
      in of_int (round_half_even (x / ulp)) * ulp)"

section \<open>report.go: percentile\<close>

text \<open>
  \<^verbatim>\<open>
  func percentile(values []float64, p float64) float64 {
      if len(values) == 0 { return 0 }
      sorted := make([]float64, len(values))
      copy(sorted, values)
      sort.Float64s(sorted)
      index := int(float64(len(sorted)-1) * p)
      return sorted[index]
  }
  \<close>
  The value computed, as a function of the contents of \<open>values\<close>. The index is computed
  in \<open>float64\<close>: the length minus one is converted to \<open>float64\<close>, the product with \<open>p\<close> is
  rounded to \<open>float64\<close>, and the conversion to \<open>int\<close> drops the fraction of the rounded
  product.
\<close>

definition percentile :: "real list \<Rightarrow> real \<Rightarrow> error + real" where
  "percentile values p =
     (if length values = 0 then Inr 0
      else let sorted = sort values;
               index = float_to_int
                         (f64_round (f64_round (real_of_int (int (length sorted) - 1)) * p))
           in index_at sorted index)"

subsection \<open>The same function on a store of slices\<close>

text \<open>
  Go slices are mutable and passed by reference. To speak about what \<open>percentile\<close> writes,
  the store is the list of all backing arrays allocated so far and a slice is the position
  of its array in that list. \<open>make\<close> allocates a new zero-filled array at the end,
  \<open>copy\<close> overwrites the common prefix of the destination, \<open>sort.Float64s\<close> sorts in place.
\<close>

type_synonym store = "real list list"

definition make_slice :: "store \<Rightarrow> nat \<Rightarrow> store \<times> nat" where
  "make_slice h n = (h @ [replicate n 0], length h)"

definition copy_slice :: "store \<Rightarrow> nat \<Rightarrow> nat \<Rightarrow> store" where
  "copy_slice h dst src =
     (let m = min (length (h ! dst)) (length (h ! src))
      in h[dst := take m (h ! src) @ drop m (h ! dst)])"

definition sort_Float64s :: "store \<Rightarrow> nat \<Rightarrow> store" where
  "sort_Float64s h a = h[a := sort (h ! a)]"

definition percentile_store :: "store \<Rightarrow> nat \<Rightarrow> real \<Rightarrow> store \<times> (error + real)" where
  "percentile_store h values p =
     (if length (h ! values) = 0 then (h, Inr 0)
      else let (h1, sorted) = make_slice h (length (h ! values));
               h2 = copy_slice h1 sorted values;
               h3 = sort_Float64s h2 sorted;
               index = float_to_int
                         (f64_round
                            (f64_round (real_of_int (int (length (h3 ! sorted)) - 1)) * p))
           in (h3, index_at (h3 ! sorted) index))"

section \<open>model.go and config.go: the data model\<close>

text \<open>\<open>Duration.Microseconds\<close>: the nanosecond count divided by 1000, truncated toward zero.\<close>

definition Microseconds :: "int \<Rightarrow> int" where
  "Microseconds d = d sdiv 1000"

record RequestResult =
  Index :: int
  TTFB :: int
  XResponseTime :: real
  CDNLatency :: real
  StatusCode :: int
  Reused :: bool
  ActualProto :: string
  Error :: string

text \<open>The zero value \<open>RequestResult{}\<close>.\<close>

definition RequestResult_zero :: RequestResult where
  "RequestResult_zero =
     \<lparr>Index = 0, TTFB = 0, XResponseTime = 0, CDNLatency = 0, StatusCode = 0,
      Reused = False, ActualProto = [], Error = []\<rparr>"

record Summary =
  EndpointName :: string
  Summary_Protocol :: string
  TotalTests :: int
  SuccessCount :: int
  FailCount :: int
  HasCDN :: bool
  TTFBAvg :: real
  TTFBMin :: real
  TTFBMax :: real
  TTFBP50 :: real
  TTFBP90 :: real
  TTFBP95 :: real
  TTFBP99 :: real
  CDNLatencyAvg :: real
  CDNLatencyMin :: real
  CDNLatencyMax :: real
  CDNLatencyP50 :: real
  CDNLatencyP90 :: real
  CDNLatencyP95 :: real
  CDNLatencyP99 :: real
  XResponseTimeAvg :: real

text \<open>\<open>type Protocol int\<close> with the constants \<open>HTTP1 = iota\<close>, \<open>HTTP2\<close>, \<open>HTTP3\<close>.\<close>

type_synonym Protocol = int

definition HTTP1 :: Protocol where "HTTP1 = 0"
definition HTTP2 :: Protocol where "HTTP2 = 1"
definition HTTP3 :: Protocol where "HTTP3 = 2"

definition Protocol_String :: "Protocol \<Rightarrow> string" where
  "Protocol_String p =
     (if p = HTTP1 then ''HTTP/1.1''
      else if p = HTTP2 then ''HTTP/2''
      else if p = HTTP3 then ''HTTP/3''
      else ''Unknown'')"

definition parseProtocol :: "string \<Rightarrow> Protocol" where
  "parseProtocol s =
     (if s = ''HTTP/3'' \<or> s = ''http3'' \<or> s = ''h3'' then HTTP3
      else if s = ''HTTP/2'' \<or> s = ''http2'' \<or> s = ''h2'' then HTTP2
      else HTTP1)"

record Endpoint =
  IP :: string
  Protocol :: Protocol
  Name :: string

section \<open>report.go: calculateSummary\<close>

text \<open>
  The local variables of \<open>calculateSummary\<close> that its first loop updates, the summary
  under construction among them.
\<close>

record tally =
  summary :: Summary
  ttfbValues :: "real list"
  cdnLatencyValues :: "real list"
  xResponseTimeSum :: real
  hasXResponseTime :: bool

text \<open>
  One iteration of \<open>for _, r := range results\<close> (lines 41 to 55): a sample with an error
  only counts as a failure; a successful one contributes its three values.
\<close>

definition tally_step :: "RequestResult \<Rightarrow> tally \<Rightarrow> tally" where
  "tally_step r t =
     (if Error r \<noteq> [] then t\<lparr>summary := (summary t)\<lparr>FailCount := FailCount (summary t) + 1\<rparr>\<rparr>
      else
        let ttfbMs = real_of_int (Microseconds (TTFB r)) / 1000
        in t\<lparr>summary := (summary t)\<lparr>SuccessCount := SuccessCount (summary t) + 1\<rparr>,
             ttfbValues := ttfbValues t @ [ttfbMs],
             cdnLatencyValues := cdnLatencyValues t @ [CDNLatency r],
             xResponseTimeSum := xResponseTimeSum t + XResponseTime r,
             hasXResponseTime := (if 0 < XResponseTime r then True else hasXResponseTime t)\<rparr>)"

fun tally_loop :: "RequestResult list \<Rightarrow> tally \<Rightarrow> tally" where
  "tally_loop [] t = t"
| "tally_loop (r # rs) t = tally_loop rs (tally_step r t)"

text \<open>
  The loop that accumulates the sum, the minimum and the maximum of a value list
  (lines 65 to 73, and again lines 84 to 92); the state is \<open>(sum, min, max)\<close>.
\<close>

fun extremes_loop :: "real list \<Rightarrow> real \<times> real \<times> real \<Rightarrow> real \<times> real \<times> real" where
  "extremes_loop [] acc = acc"
| "extremes_loop (v # vs) (s, mn, mx) =
     extremes_loop vs (s + v, (if v < mn then v else mn), (if v > mx then v else mx))"

text \<open>
  The statistics block that the source writes out twice, once for the TTFB values
  (lines 62 to 78) and once for the CDN latency values (lines 81 to 97): minimum and
  maximum start at element 0, the mean divides by the length, then the four percentiles.
  The fractions are the constants \<open>0.50\<close>, \<open>0.90\<close>, \<open>0.95\<close> and \<open>0.99\<close> converted to
  \<open>float64\<close>. The result is \<open>(avg, min, max, p50, p90, p95, p99)\<close>.
\<close>

definition distribution ::
  "real list \<Rightarrow> error + (real \<times> real \<times> real \<times> real \<times> real \<times> real \<times> real)" where
  "distribution vs =
     bind_err (index_at vs 0) (\<lambda>v0.
       let (s, mn, mx) = extremes_loop vs (0, v0, v0)
       in bind_err (fdiv s (real (length vs))) (\<lambda>avg.
          bind_err (percentile vs (f64_round (50 / 100))) (\<lambda>p50.
          bind_err (percentile vs (f64_round (90 / 100))) (\<lambda>p90.
          bind_err (percentile vs (f64_round (95 / 100))) (\<lambda>p95.
          bind_err (percentile vs (f64_round (99 / 100))) (\<lambda>p99.
            Inr (avg, mn, mx, p50, p90, p95, p99)))))))"

text \<open>The composite literal of lines 30 to 34; the fields it does not name are zero.\<close>

definition newSummary :: "Endpoint \<Rightarrow> RequestResult list \<Rightarrow> Summary" where
  "newSummary endpoint results =
     \<lparr>EndpointName = Name endpoint,
      Summary_Protocol = Protocol_String (Protocol endpoint),
      TotalTests = int (length results),
      SuccessCount = 0, FailCount = 0, HasCDN = False,
      TTFBAvg = 0, TTFBMin = 0, TTFBMax = 0,
      TTFBP50 = 0, TTFBP90 = 0, TTFBP95 = 0, TTFBP99 = 0,
      CDNLatencyAvg = 0, CDNLatencyMin = 0, CDNLatencyMax = 0,
      CDNLatencyP50 = 0, CDNLatencyP90 = 0, CDNLatencyP95 = 0, CDNLatencyP99 = 0,
      XResponseTimeAvg = 0\<rparr>"

definition calculateSummary :: "Endpoint \<Rightarrow> RequestResult list \<Rightarrow> error + Summary" where
  "calculateSummary endpoint results =
     (let t = tally_loop results
                \<lparr>summary = newSummary endpoint results, ttfbValues = [],
                 cdnLatencyValues = [], xResponseTimeSum = 0, hasXResponseTime = False\<rparr>
      in if length (ttfbValues t) = 0 then Inr (summary t)
         else
           bind_err (distribution (ttfbValues t)) (\<lambda>(tavg, tmin, tmax, t50, t90, t95, t99).
           bind_err (distribution (cdnLatencyValues t)) (\<lambda>(cavg, cmin, cmax, c50, c90, c95, c99).
           bind_err (fdiv (xResponseTimeSum t) (real (length (ttfbValues t)))) (\<lambda>xavg.
             Inr ((summary t)
               \<lparr>TTFBMin := tmin, TTFBMax := tmax, TTFBAvg := tavg,
                TTFBP50 := t50, TTFBP90 := t90, TTFBP95 := t95, TTFBP99 := t99,
                CDNLatencyMin := cmin, CDNLatencyMax := cmax, CDNLatencyAvg := cavg,
                CDNLatencyP50 := c50, CDNLatencyP90 := c90, CDNLatencyP95 := c95,
                CDNLatencyP99 := c99,
                XResponseTimeAvg := xavg, HasCDN := hasXResponseTime t\<rparr>)))))"

text \<open>
  One row of \<open>printSummaryTable\<close> (lines 158 to 189). The two \<open>Sprintf\<close> renderings,
  \<open>%.2f\<close> of a float and \<open>%d/%d\<close> of two counts, are parameters. The five CDN and origin
  cells hold \<open>-\<close> unless the summary's \<open>HasCDN\<close> flag is set.
\<close>

definition summaryRow ::
  "(real \<Rightarrow> string) \<Rightarrow> (int \<Rightarrow> int \<Rightarrow> string) \<Rightarrow> Summary \<Rightarrow> string list" where
  "summaryRow fmt2 fmtCount s =
     (let (cdnLatencyAvg, cdnP50, cdnP90, cdnP99, xResponseAvg) =
            (if HasCDN s
             then (fmt2 (CDNLatencyAvg s), fmt2 (CDNLatencyP50 s), fmt2 (CDNLatencyP90 s),
                   fmt2 (CDNLatencyP99 s), fmt2 (XResponseTimeAvg s))
             else (''-'', ''-'', ''-'', ''-'', ''-''))
      in [EndpointName s, Summary_Protocol s, fmtCount (SuccessCount s) (TotalTests s),
          fmt2 (TTFBAvg s), fmt2 (TTFBP50 s), fmt2 (TTFBP90 s), fmt2 (TTFBP99 s),
          fmt2 (TTFBMin s), fmt2 (TTFBMax s),
          cdnLatencyAvg, cdnP50, cdnP90, cdnP99, xResponseAvg])"

section \<open>Library functions used by client.go\<close>

text \<open>
  \<open>strings.TrimSuffix\<close>: the string without the given trailing suffix, or the string itself
  when it does not end with the suffix.
\<close>

definition TrimSuffix :: "string \<Rightarrow> string \<Rightarrow> string" where
  "TrimSuffix s suf =
     (if length suf \<le> length s \<and> drop (length s - length suf) s = suf
      then take (length s - length suf) s else s)"

text \<open>
  \<open>strings.TrimSpace\<close> removes leading and trailing Unicode white space. The white space
  code points (\<open>unicode.IsSpace\<close>) are listed by their UTF-8 encodings: tab, line feed,
  vertical tab, form feed, carriage return, space, U+0085, U+00A0, U+1680, U+2000 to
  U+200A, U+2028, U+2029, U+202F, U+205F and U+3000.
\<close>

definition space_runes :: "string list" where
  "space_runes =
     map (\<lambda>c. [c]) [CHR 0x09, CHR 0x0A, CHR 0x0B, CHR 0x0C, CHR 0x0D, CHR 0x20]
     @ [[CHR 0xC2, CHR 0x85], [CHR 0xC2, CHR 0xA0], [CHR 0xE1, CHR 0x9A, CHR 0x80]]
     @ map (\<lambda>c. [CHR 0xE2, CHR 0x80, c])
         [CHR 0x80, CHR 0x81, CHR 0x82, CHR 0x83, CHR 0x84, CHR 0x85, CHR 0x86, CHR 0x87,
          CHR 0x88, CHR 0x89, CHR 0x8A, CHR 0xA8, CHR 0xA9, CHR 0xAF]
     @ [[CHR 0xE2, CHR 0x81, CHR 0x9F], [CHR 0xE3, CHR 0x80, CHR 0x80]]"

definition leading_space :: "string \<Rightarrow> string option" where
  "leading_space s = find (\<lambda>enc. take (length enc) s = enc) space_runes"

definition trailing_space :: "string \<Rightarrow> string option" where
  "trailing_space s =
     find (\<lambda>enc. length enc \<le> length s \<and> drop (length s - length enc) s = enc) space_runes"

function TrimLeftSpace :: "string \<Rightarrow> string" where
  "TrimLeftSpace s =
     (case leading_space s of
        None \<Rightarrow> s
      | Some enc \<Rightarrow> TrimLeftSpace (drop (length enc) s))"
  by pat_completeness auto
termination
proof (relation "measure length")
  show "wf (measure length)" by simp
next
  fix s enc :: string
  assume "leading_space s = Some enc"
  then have mem: "enc \<in> set space_runes" and pre: "take (length enc) s = enc"
    by (auto simp: leading_space_def find_Some_iff)
  from mem have "enc \<noteq> []" by (auto simp: space_runes_def)
  with pre have "s \<noteq> []" by auto
  with \<open>enc \<noteq> []\<close> show "(drop (length enc) s, s) \<in> measure length" by simp
qed

function TrimRightSpace :: "string \<Rightarrow> string" where
  "TrimRightSpace s =
     (case trailing_space s of
        None \<Rightarrow> s
      | Some enc \<Rightarrow> TrimRightSpace (take (length s - length enc) s))"
  by pat_completeness auto
termination
proof (relation "measure length")
  show "wf (measure length)" by simp
next
  fix s enc :: string
  assume "trailing_space s = Some enc"
  then have mem: "enc \<in> set space_runes" and len: "length enc \<le> length s"
    by (auto simp: trailing_space_def find_Some_iff)
  from mem have "enc \<noteq> []" by (auto simp: space_runes_def)
  with len have "length s - length enc < length s" by (cases s) auto
  then show "(take (length s - length enc) s, s) \<in> measure length" by simp
qed

definition TrimSpace :: "string \<Rightarrow> string" where
  "TrimSpace s = TrimRightSpace (TrimLeftSpace s)"

text \<open>
  \<open>strconv.ParseFloat(s, 64)\<close> on the decimal syntax: an optional sign, digits with an
  optional point (at least one digit), an optional exponent \<open>e\<close> or \<open>E\<close> with an optional
  sign and at least one digit, and nothing else. \<open>None\<close> stands for a returned error
  (bad syntax, or a magnitude that rounds beyond the largest \<open>float64\<close>). The value is
  the exact decimal value, not rounded to \<open>float64\<close> (so a magnitude too small for
  \<open>float64\<close>, which the library returns as 0, stays positive here). The library also
  accepts digit-separating underscores, the hexadecimal syntax and the words for
  infinity and NaN; these are not covered. The theorems below apply this function only
  to the strings \<open>0.045\<close>, \<open>0.050\<close>, \<open>0\<close> and \<open>abc\<close>, on which it agrees with the library.
\<close>

definition is_digit :: "char \<Rightarrow> bool" where
  "is_digit c = (48 \<le> (of_char c :: nat) \<and> (of_char c :: nat) \<le> 57)"

definition digits_value :: "string \<Rightarrow> nat" where
  "digits_value ds = foldl (\<lambda>n c. 10 * n + ((of_char c :: nat) - 48)) 0 ds"

definition scale10 :: "real \<Rightarrow> int \<Rightarrow> real" where
  "scale10 m k = (if 0 \<le> k then m * 10 ^ nat k else m / 10 ^ nat (- k))"

definition split_sign :: "string \<Rightarrow> bool \<times> string" where
  "split_sign s =
     (case s of
        [] \<Rightarrow> (False, [])
      | c # cs \<Rightarrow> if c = CHR ''+'' then (False, cs)
                  else if c = CHR ''-'' then (True, cs)
                  else (False, s))"

definition parse_exponent :: "string \<Rightarrow> int option" where
  "parse_exponent r =
     (case r of
        [] \<Rightarrow> Some 0
      | c # cs \<Rightarrow>
          if c = CHR ''e'' \<or> c = CHR ''E'' then
            (let (neg, ds) = split_sign cs
             in if ds \<noteq> [] \<and> list_all is_digit ds
                then Some (if neg then - int (digits_value ds) else int (digits_value ds))
                else None)
          else None)"

definition ParseFloat :: "string \<Rightarrow> real option" where
  "ParseFloat s =
     (let (neg, s1) = split_sign s;
          ip = takeWhile is_digit s1;
          r1 = dropWhile is_digit s1;
          (fp, r2) = (case r1 of
                        [] \<Rightarrow> ([], [])
                      | c # cs \<Rightarrow> if c = CHR ''.''
                                  then (takeWhile is_digit cs, dropWhile is_digit cs)
                                  else ([], r1))
      in if ip @ fp = [] then None
         else case parse_exponent r2 of
                None \<Rightarrow> None
              | Some e \<Rightarrow>
                  let v = scale10 (real (digits_value (ip @ fp))) (e - int (length fp))
                  in if 2 ^ 1024 - 2 ^ 970 \<le> v then None
                     else Some (if neg then - v else v))"

text \<open>
  \<open>net.JoinHostPort\<close>: a host that contains a colon is put in brackets.
\<close>

definition JoinHostPort :: "string \<Rightarrow> string \<Rightarrow> string" where
  "JoinHostPort host port =
     (if CHR '':'' \<in> set host then ''['' @ host @ '']:'' @ port
      else host @ '':'' @ port)"

section \<open>client.go: the transport factory\<close>

text \<open>
  What the tool configures of an \<open>http.Client\<close>. \<open>DialTarget\<close> is the closure installed as
  \<open>DialContext\<close> (or as \<open>Dial\<close> of the HTTP/3 transport), reduced to the address it hands
  to the dialer for a requested address \<open>addr\<close>. \<open>net.SplitHostPort\<close> is a parameter of
  the factories; it returns host and port, or \<open>None\<close> for its error.
\<close>

record HttpClient =
  DialTarget :: "string \<Rightarrow> string"
  NextProtos :: "string list"
  ForceAttemptHTTP2 :: bool
  InsecureSkipVerify :: bool
  OverQUIC :: bool
  Timeout :: int

definition forcedDial ::
  "(string \<Rightarrow> (string \<times> string) option) \<Rightarrow> string \<Rightarrow> string \<Rightarrow> string" where
  "forcedDial splitHostPort ip addr =
     (let port = (case splitHostPort addr of None \<Rightarrow> ''443'' | Some (host, port) \<Rightarrow> port)
      in JoinHostPort ip port)"

definition createHTTP1Client ::
  "(string \<Rightarrow> (string \<times> string) option) \<Rightarrow> string \<Rightarrow> int \<Rightarrow> HttpClient" where
  "createHTTP1Client splitHostPort ip timeout =
     \<lparr>DialTarget = forcedDial splitHostPort ip, NextProtos = [''http/1.1''],
      ForceAttemptHTTP2 = False, InsecureSkipVerify = False, OverQUIC = False,
      Timeout = timeout\<rparr>"

definition createHTTP2Client ::
  "(string \<Rightarrow> (string \<times> string) option) \<Rightarrow> string \<Rightarrow> int \<Rightarrow> HttpClient" where
  "createHTTP2Client splitHostPort ip timeout =
     \<lparr>DialTarget = forcedDial splitHostPort ip, NextProtos = [''h2''],
      ForceAttemptHTTP2 = True, InsecureSkipVerify = False, OverQUIC = False,
      Timeout = timeout\<rparr>"

definition createHTTP3Client ::
  "(string \<Rightarrow> (string \<times> string) option) \<Rightarrow> string \<Rightarrow> int \<Rightarrow> HttpClient" where
  "createHTTP3Client splitHostPort ip timeout =
     \<lparr>DialTarget = forcedDial splitHostPort ip, NextProtos = [],
      ForceAttemptHTTP2 = False, InsecureSkipVerify = False, OverQUIC = True,
      Timeout = timeout\<rparr>"

section \<open>client.go: measureRequest\<close>

text \<open>
  The response as far as \<open>measureRequest\<close> reads it. The header is Go's
  \<open>map[string][]string\<close>, keyed by canonical header names.
\<close>

record Response =
  resp_StatusCode :: int
  resp_Proto :: string
  resp_Header :: "string \<rightharpoonup> string list"

text \<open>
  \<open>Header.Get\<close> returns the first value stored under the canonical form of the key, or the
  empty string. The argument here is the key already in canonical form.
\<close>

definition Header_Get :: "(string \<rightharpoonup> string list) \<Rightarrow> string \<Rightarrow> string" where
  "Header_Get h key = (case h key of None \<Rightarrow> [] | Some [] \<Rightarrow> [] | Some (v # vs) \<Rightarrow> v)"

text \<open>
  What the outside world does with one probe: \<open>http.NewRequest\<close> fails with an error
  (given by its \<open>%v\<close> rendering), or \<open>client.Do\<close> fails with an error, or a response arrives.
  In the last case the trace hooks have recorded the time to the first response byte
  (zero if the hook never ran) and whether the connection was reused.
\<close>

datatype exchange =
    NewRequestFails string
  | DoFails string
  | Responds int bool Response

text \<open>The message prefixes of lines 138 and 168, as UTF-8 bytes, each ending in \<open>: \<close>.\<close>

definition msg_create_failed :: string where
  "msg_create_failed =
     [CHR 0xE5, CHR 0x88, CHR 0x9B, CHR 0xE5, CHR 0xBB, CHR 0xBA, CHR 0xE8, CHR 0xAF,
      CHR 0xB7, CHR 0xE6, CHR 0xB1, CHR 0x82, CHR 0xE5, CHR 0xA4, CHR 0xB1, CHR 0xE8,
      CHR 0xB4, CHR 0xA5, CHR 0x3A, CHR 0x20]"

definition msg_request_failed :: string where
  "msg_request_failed =
     [CHR 0xE8, CHR 0xAF, CHR 0xB7, CHR 0xE6, CHR 0xB1, CHR 0x82, CHR 0xE5, CHR 0xA4,
      CHR 0xB1, CHR 0xE8, CHR 0xB4, CHR 0xA5, CHR 0x3A, CHR 0x20]"

text \<open>
  \<open>measureRequest\<close> as a function of what the world answers. The float parser is a
  parameter, so that the general facts hold whatever \<open>strconv.ParseFloat\<close> accepts.
\<close>

definition measureRequest :: "(string \<Rightarrow> real option) \<Rightarrow> exchange \<Rightarrow> RequestResult" where
  "measureRequest parseFloat ex =
     (case ex of
        NewRequestFails err \<Rightarrow> RequestResult_zero\<lparr>Error := msg_create_failed @ err\<rparr>
      | DoFails err \<Rightarrow> RequestResult_zero\<lparr>Error := msg_request_failed @ err\<rparr>
      | Responds ttfb reused resp \<Rightarrow>
          let result = RequestResult_zero
                 \<lparr>TTFB := ttfb, StatusCode := resp_StatusCode resp, Reused := reused,
                  ActualProto := resp_Proto resp\<rparr>;
              xResponseTimeStr = Header_Get (resp_Header resp) ''X-Source-Response-Time'';
              result =
                (if xResponseTimeStr \<noteq> [] then
                   (case parseFloat (TrimSpace (TrimSuffix xResponseTimeStr ''s'')) of
                      Some val \<Rightarrow> result\<lparr>XResponseTime := val * 1000\<rparr>
                    | None \<Rightarrow> result)
                 else result);
              ttfbMs = real_of_int (Microseconds ttfb) / 1000
          in result\<lparr>CDNLatency := ttfbMs - XResponseTime result\<rparr>)"

section \<open>main.go: the round scheduler\<close>

record Config =
  Domain :: string
  Path :: string
  TestCount :: int
  Config_Timeout :: int
  Interval :: int
  Endpoints :: "Endpoint list"

record RequestTask =
  task_Endpoint :: Endpoint
  task_Client :: HttpClient
  task_URL :: string
  task_Domain :: string
  task_Index :: int

record EndpointResult =
  er_Endpoint :: Endpoint
  er_Result :: RequestResult

record EndpointClient =
  ec_Endpoint :: Endpoint
  ec_Client :: HttpClient

text \<open>The zero value of \<open>EndpointResult\<close>, with which \<open>make\<close> fills the result slice.\<close>

definition EndpointResult_zero :: EndpointResult where
  "EndpointResult_zero =
     \<lparr>er_Endpoint = \<lparr>IP = [], Protocol = 0, Name = []\<rparr>, er_Result = RequestResult_zero\<rparr>"

text \<open>
  The body of the goroutine that \<open>runParallelRound\<close> starts for position \<open>idx\<close>: it
  measures, stamps the task's index on the sample and writes slot \<open>idx\<close> of the shared
  result slice. \<open>world idx\<close> is what the network answers to this probe.
\<close>

definition probe ::
  "(string \<Rightarrow> real option) \<Rightarrow> (nat \<Rightarrow> exchange) \<Rightarrow> RequestTask list \<Rightarrow> nat
     \<Rightarrow> EndpointResult list \<Rightarrow> EndpointResult list" where
  "probe parseFloat world tasks idx results =
     (let t = tasks ! idx;
          result = (measureRequest parseFloat (world idx))\<lparr>Index := task_Index t\<rparr>
      in results[idx := \<lparr>er_Endpoint = task_Endpoint t, er_Result = result\<rparr>])"

text \<open>
  \<open>runParallelRound\<close>: one goroutine per task, then \<open>wg.Wait()\<close>. The goroutines finish in
  some order; \<open>completion\<close> lists the task positions in the order in which their writes
  happen. Because of the wait group it is a permutation of the positions
  (\<open>is_completion_order\<close>). The progress lines written to the logger are left out.
\<close>

definition runParallelRound ::
  "(string \<Rightarrow> real option) \<Rightarrow> (nat \<Rightarrow> exchange) \<Rightarrow> nat list \<Rightarrow> RequestTask list
     \<Rightarrow> EndpointResult list" where
  "runParallelRound parseFloat world completion tasks =
     fold (probe parseFloat world tasks) completion
       (replicate (length tasks) EndpointResult_zero)"

definition is_completion_order :: "nat list \<Rightarrow> nat \<Rightarrow> bool" where
  "is_completion_order completion n = (distinct completion \<and> set completion = {0..<n})"

text \<open>
  The client construction loop of \<open>main\<close> (lines 118 to 132): a client per endpoint
  according to its selector; an endpoint with any other selector is logged and skipped.
  The result is the client list and the selectors reported as unsupported.
\<close>

fun buildClients ::
  "(string \<Rightarrow> (string \<times> string) option) \<Rightarrow> int \<Rightarrow> Endpoint list
     \<Rightarrow> EndpointClient list \<times> Protocol list" where
  "buildClients splitHostPort timeout [] = ([], [])"
| "buildClients splitHostPort timeout (endpoint # rest) =
     (let (clients, unsupported) = buildClients splitHostPort timeout rest
      in if Protocol endpoint = HTTP1 then
           (\<lparr>ec_Endpoint = endpoint,
             ec_Client = createHTTP1Client splitHostPort (IP endpoint) timeout\<rparr> # clients,
            unsupported)
         else if Protocol endpoint = HTTP2 then
           (\<lparr>ec_Endpoint = endpoint,
             ec_Client = createHTTP2Client splitHostPort (IP endpoint) timeout\<rparr> # clients,
            unsupported)
         else if Protocol endpoint = HTTP3 then
           (\<lparr>ec_Endpoint = endpoint,
             ec_Client = createHTTP3Client splitHostPort (IP endpoint) timeout\<rparr> # clients,
            unsupported)
         else (clients, Protocol endpoint # unsupported))"

text \<open>The map key of an endpoint's result sequence: name, a bar, the protocol's name.\<close>

definition endpointKey :: "Endpoint \<Rightarrow> string" where
  "endpointKey e = Name e @ ''|'' @ Protocol_String (Protocol e)"

text \<open>Lines 135 to 138: an empty sequence under the key of every client.\<close>

definition initResults :: "EndpointClient list \<Rightarrow> (string \<rightharpoonup> RequestResult list)" where
  "initResults clients =
     fold (\<lambda>ec m. m(endpointKey (ec_Endpoint ec) \<mapsto> [])) clients Map.empty"

text \<open>
  Lines 158 to 161: each result of the round is appended to the sequence found under its
  endpoint's key (a missing key reads as the empty sequence).
\<close>

definition collect ::
  "EndpointResult \<Rightarrow> (string \<rightharpoonup> RequestResult list) \<Rightarrow> (string \<rightharpoonup> RequestResult list)" where
  "collect er m =
     (let key = endpointKey (er_Endpoint er)
      in m(key \<mapsto> (case m key of None \<Rightarrow> [] | Some rs \<Rightarrow> rs) @ [er_Result er]))"

definition buildTasks :: "EndpointClient list \<Rightarrow> string \<Rightarrow> string \<Rightarrow> int \<Rightarrow> RequestTask list" where
  "buildTasks clients url domain roundNum =
     map (\<lambda>ec. \<lparr>task_Endpoint = ec_Endpoint ec, task_Client = ec_Client ec, task_URL = url,
                 task_Domain = domain, task_Index = roundNum\<rparr>) clients"

text \<open>
  The round loop \<open>for round := 1; round <= config.TestCount; round++\<close> (lines 141 to 167),
  started at \<open>roundNum\<close> with the results collected so far. \<open>world r\<close> and
  \<open>completion r\<close> are the network's answers and the completion order in round \<open>r\<close>.
  The pause between rounds has no effect on the results and is left out.
\<close>

function roundLoop ::
  "(string \<Rightarrow> real option) \<Rightarrow> (int \<Rightarrow> nat \<Rightarrow> exchange) \<Rightarrow> (int \<Rightarrow> nat list)
     \<Rightarrow> EndpointClient list \<Rightarrow> string \<Rightarrow> string \<Rightarrow> int \<Rightarrow> int
     \<Rightarrow> (string \<rightharpoonup> RequestResult list) \<Rightarrow> (string \<rightharpoonup> RequestResult list)" where
  "roundLoop parseFloat world completion clients url domain testCount roundNum m =
     (if roundNum \<le> testCount then
        let tasks = buildTasks clients url domain roundNum;
            results = runParallelRound parseFloat (world roundNum) (completion roundNum) tasks;
            m' = fold collect results m
        in roundLoop parseFloat world completion clients url domain testCount (roundNum + 1) m'
      else m)"
  by pat_completeness auto
termination
  by (relation "measure (\<lambda>(parseFloat, world, completion, clients, url, domain, testCount,
        roundNum, m). nat (testCount + 1 - roundNum))") auto

declare roundLoop.simps [simp del]

text \<open>
  \<open>main\<close> up to the end of the rounds: the clients, the selectors reported as
  unsupported, and the result sequences by key. \<open>resultsOf\<close> is the read
  \<open>endpointResults[key]\<close> of line 174, whose result goes to \<open>calculateSummary\<close>.
\<close>

definition campaign ::
  "(string \<Rightarrow> real option) \<Rightarrow> (string \<Rightarrow> (string \<times> string) option)
     \<Rightarrow> (int \<Rightarrow> nat \<Rightarrow> exchange) \<Rightarrow> (int \<Rightarrow> nat list) \<Rightarrow> Config
     \<Rightarrow> EndpointClient list \<times> Protocol list \<times> (string \<rightharpoonup> RequestResult list)" where
  "campaign parseFloat splitHostPort world completion config =
     (let url = ''https://'' @ Domain config @ Path config;
          (clients, unsupported) =
             buildClients splitHostPort (Config_Timeout config) (Endpoints config);
          endpointResults =
             roundLoop parseFloat world completion clients url (Domain config)
               (TestCount config) 1 (initResults clients)
      in (clients, unsupported, endpointResults))"

definition resultsOf :: "(string \<rightharpoonup> RequestResult list) \<Rightarrow> Endpoint \<Rightarrow> RequestResult list" where
  "resultsOf m e = (case m (endpointKey e) of None \<Rightarrow> [] | Some rs \<Rightarrow> rs)"

section \<open>Vocabulary of the claims\<close>

text \<open>
  The origin-time header value that \<open>measureRequest\<close> reads from an exchange (line 179);
  empty when the header is missing or when there is no response.
\<close>

definition origin_header :: "exchange \<Rightarrow> string" where
  "origin_header ex =
     (case ex of
        Responds ttfb reused resp \<Rightarrow> Header_Get (resp_Header resp) ''X-Source-Response-Time''
      | _ \<Rightarrow> [])"

text \<open>The text handed to the float parser (lines 182 to 184).\<close>

definition origin_text :: "exchange \<Rightarrow> string" where
  "origin_text ex = TrimSpace (TrimSuffix (origin_header ex) ''s'')"

text \<open>An exchange in which request construction or the request itself failed.\<close>

definition failed_exchange :: "exchange \<Rightarrow> bool" where
  "failed_exchange ex =
     (case ex of NewRequestFails err \<Rightarrow> True | DoFails err \<Rightarrow> True | Responds ttfb reused resp \<Rightarrow> False)"

text \<open>The selectors for which \<open>main\<close> has a factory.\<close>

definition supported :: "Protocol \<Rightarrow> bool" where
  "supported p = (p = HTTP1 \<or> p = HTTP2 \<or> p = HTTP3)"

text \<open>
  The sample of one probe as \<open>runParallelRound\<close> stores it: the measurement with the
  round index stamped on it (line 41).
\<close>

definition stamped ::
  "(string \<Rightarrow> real option) \<Rightarrow> exchange \<Rightarrow> int \<Rightarrow> RequestResult" where
  "stamped parseFloat ex i = (measureRequest parseFloat ex)\<lparr>Index := i\<rparr>"

section \<open>Example inputs\<close>

text \<open>
  A response with status 200 over HTTP/2 whose first byte arrived after 100 ms on a new
  connection; the argument is the value of the origin-time header, if the header is there.
\<close>

definition reply_response :: "string option \<Rightarrow> Response" where
  "reply_response v =
     \<lparr>resp_StatusCode = 200, resp_Proto = ''HTTP/2.0'',
      resp_Header = (case v of None \<Rightarrow> Map.empty
                     | Some s \<Rightarrow> [''X-Source-Response-Time'' \<mapsto> [s]])\<rparr>"

definition reply :: "string option \<Rightarrow> exchange" where
  "reply v = Responds 100000000 False (reply_response v)"

text \<open>A sample that failed with a timeout in the given round.\<close>

definition timed_out :: "int \<Rightarrow> RequestResult" where
  "timed_out i = RequestResult_zero\<lparr>Index := i, Error := ''timeout''\<rparr>"

definition edge :: "string \<Rightarrow> string \<Rightarrow> Protocol \<Rightarrow> Endpoint" where
  "edge n ip p = \<lparr>IP = ip, Protocol = p, Name = n\<rparr>"

text \<open>
  A campaign of two endpoints in which the first endpoint's probe of round 3 times out
  and every other probe is answered with an origin time of 45 ms; the probes of odd
  rounds complete in reverse order.
\<close>

definition example_split :: "string \<Rightarrow> (string \<times> string) option" where
  "example_split addr =
     (if addr = ''cdn.example:443'' then Some (''cdn.example'', ''443'') else None)"

definition example_config :: "Endpoint list \<Rightarrow> int \<Rightarrow> Config" where
  "example_config eps n =
     \<lparr>Domain = ''cdn.example'', Path = ''/api/health'', TestCount = n,
      Config_Timeout = 30000000000, Interval = 100000000, Endpoints = eps\<rparr>"

definition example_world :: "int \<Rightarrow> nat \<Rightarrow> exchange" where
  "example_world r i =
     (if r = 3 \<and> i = 0 then DoFails ''timeout'' else reply (Some ''0.045s''))"

definition example_completion :: "int \<Rightarrow> nat list" where
  "example_completion r = (if even r then [0, 1] else [1, 0])"

definition example_endpoints :: "Endpoint list" where
  "example_endpoints = [edge ''A'' ''192.0.2.1'' HTTP2, edge ''B'' ''192.0.2.2'' HTTP3]"

definition example_tasks :: "int \<Rightarrow> RequestTask list" where
  "example_tasks r =
     buildTasks (fst (buildClients example_split 30000000000 example_endpoints))
       ''https://cdn.example/api/health'' ''cdn.example'' r"

text \<open>Two configured endpoints with the same name and protocol, at different addresses.\<close>

definition twin_endpoints :: "Endpoint list" where
  "twin_endpoints = [edge ''A'' ''192.0.2.1'' HTTP2, edge ''A'' ''192.0.2.2'' HTTP2]"

section \<open>Facts about rounding to float64\<close>

lemma pow2_pos: "0 < pow2 k"
  by (simp add: pow2_def)

lemma pow2_shift:
  assumes "0 \<le> e"
  shows "pow2 (e - int n) * 2 ^ n = 2 ^ nat e"
proof (cases "int n \<le> e")
  case True
  then have "nat e = nat (e - int n) + n" by simp
  then have "(2::real) ^ nat e = 2 ^ nat (e - int n) * 2 ^ n" by (metis power_add)
  with True show ?thesis by (simp add: pow2_def)
next
  case False
  with assms have "n = nat (int n - e) + nat e" by simp
  then have "(2::real) ^ n = 2 ^ nat (int n - e) * 2 ^ nat e" by (metis power_add)
  moreover from False have "pow2 (e - int n) = 1 / 2 ^ nat (int n - e)"
    by (auto simp: pow2_def)
  ultimately show ?thesis by simp
qed

lemma halvings_upper: "x < 2 ^ Suc k \<Longrightarrow> halvings n x \<le> int k"
proof (induction n arbitrary: x k)
  case 0
  then show ?case by simp
next
  case (Suc n)
  show ?case
  proof (cases "2 \<le> x")
    case False
    then show ?thesis by simp
  next
    case True
    with Suc.prems obtain j where k: "k = Suc j" by (cases k) auto
    with Suc.prems have "x / 2 < 2 ^ Suc j" by simp
    from Suc.IH [OF this] True k show ?thesis by simp
  qed
qed

lemma halvings_lower: "1 \<le> x \<Longrightarrow> 0 \<le> halvings n x \<and> 2 ^ nat (halvings n x) \<le> x"
proof (induction n arbitrary: x)
  case 0
  then show ?case by simp
next
  case (Suc n)
  show ?case
  proof (cases "2 \<le> x")
    case False
    with Suc.prems show ?thesis by simp
  next
    case True
    then have "1 \<le> x / 2" by simp
    from Suc.IH [OF this] have h: "0 \<le> halvings n (x / 2)"
      and p: "2 ^ nat (halvings n (x / 2)) \<le> x / 2" by simp_all
    from h have "nat (1 + halvings n (x / 2)) = Suc (nat (halvings n (x / 2)))" by simp
    with p h True show ?thesis by simp
  qed
qed

lemma doublings_nonneg: "0 \<le> doublings n x"
  by (induction n arbitrary: x) simp_all

lemma f64_exponent_small:
  assumes "\<bar>x\<bar> < 2 ^ 53"
  shows "f64_exponent x \<le> 52"
proof (cases "1 \<le> \<bar>x\<bar>")
  case True
  from assms have "\<bar>x\<bar> < 2 ^ Suc 52" by simp
  from halvings_upper [OF this, of 1023] True show ?thesis by (simp add: f64_exponent_def)
next
  case False
  with doublings_nonneg [of 1022 "\<bar>x\<bar>"] show ?thesis by (simp add: f64_exponent_def)
qed

lemma f64_spacing_small:
  assumes "\<bar>x\<bar> < 2 ^ 53"
  shows "pow2 (f64_exponent x - 52) = 1 / 2 ^ nat (52 - f64_exponent x)"
  using f64_exponent_small [OF assms] by (auto simp: pow2_def)

lemma round_half_even_of_int: "round_half_even (of_int m) = m"
  by (simp add: round_half_even_def)

lemma round_half_even_nonneg: "0 \<le> y \<Longrightarrow> 0 \<le> round_half_even y"
  by (simp add: round_half_even_def Let_def)

lemma round_half_even_le_int:
  assumes "y \<le> of_int m"
  shows "round_half_even y \<le> m"
proof (cases "y = of_int m")
  case True
  then show ?thesis by (simp add: round_half_even_of_int)
next
  case False
  with assms have "y < of_int m" by simp
  then have "\<lfloor>y\<rfloor> < m" by (simp add: floor_less_iff)
  then show ?thesis by (simp add: round_half_even_def Let_def)
qed

lemma round_half_even_ge_int:
  assumes "of_int m \<le> y"
  shows "m \<le> round_half_even y"
proof -
  from assms have "m \<le> \<lfloor>y\<rfloor>" by (simp add: le_floor_iff)
  then show ?thesis by (simp add: round_half_even_def Let_def)
qed

lemma round_half_even_upper: "of_int (round_half_even y) \<le> y + 1 / 2"
  by (auto simp: round_half_even_def Let_def; linarith)

lemma f64_round_nonneg: "0 \<le> x \<Longrightarrow> 0 \<le> f64_round x"
  using pow2_pos [of "f64_exponent x - 52"]
  by (simp add: f64_round_def Let_def round_half_even_nonneg)

text \<open>
  Below \<open>2 ^ 53\<close> every integer is a \<open>float64\<close>, so rounding does not cross an integer:
  it keeps integers and stays on the same side of each of them.
\<close>

lemma f64_round_le_int:
  assumes "x \<le> of_int k" and "\<bar>x\<bar> < 2 ^ 53"
  shows "f64_round x \<le> of_int k"
proof -
  define j where "j = nat (52 - f64_exponent x)"
  have u: "pow2 (f64_exponent x - 52) = 1 / 2 ^ j"
    unfolding j_def by (rule f64_spacing_small [OF assms(2)])
  from assms(1) have "x * 2 ^ j \<le> of_int k * 2 ^ j" by simp
  also have "\<dots> = of_int (k * 2 ^ j)" by simp
  finally have "round_half_even (x * 2 ^ j) \<le> k * 2 ^ j" by (rule round_half_even_le_int)
  then have "of_int (round_half_even (x * 2 ^ j)) \<le> (of_int (k * 2 ^ j) :: real)"
    by (simp only: of_int_le_iff)
  then have "of_int (round_half_even (x * 2 ^ j)) / 2 ^ j \<le> (of_int k :: real)"
    by (simp add: divide_le_eq)
  then show ?thesis by (simp add: f64_round_def Let_def u)
qed

lemma f64_round_ge_int:
  assumes "of_int k \<le> x" and "\<bar>x\<bar> < 2 ^ 53"
  shows "of_int k \<le> f64_round x"
proof -
  define j where "j = nat (52 - f64_exponent x)"
  have u: "pow2 (f64_exponent x - 52) = 1 / 2 ^ j"
    unfolding j_def by (rule f64_spacing_small [OF assms(2)])
  have "of_int (k * 2 ^ j) = of_int k * (2::real) ^ j" by simp
  also from assms(1) have "\<dots> \<le> x * 2 ^ j" by simp
  finally have "k * 2 ^ j \<le> round_half_even (x * 2 ^ j)" by (rule round_half_even_ge_int)
  then have "(of_int (k * 2 ^ j) :: real) \<le> of_int (round_half_even (x * 2 ^ j))"
    by (simp only: of_int_le_iff)
  then have "(of_int k :: real) \<le> of_int (round_half_even (x * 2 ^ j)) / 2 ^ j"
    by (simp add: le_divide_eq)
  then show ?thesis by (simp add: f64_round_def Let_def u)
qed

lemma f64_round_of_int:
  assumes "\<bar>k\<bar> < 2 ^ 53"
  shows "f64_round (of_int k) = of_int k"
proof -
  from assms have "\<bar>of_int k :: real\<bar> < 2 ^ 53"
    by (metis of_int_abs of_int_less_numeral_power_cancel_iff)
  from f64_round_le_int [OF order_refl this] f64_round_ge_int [OF order_refl this]
  show ?thesis by simp
qed

text \<open>From 1 on, rounding adds at most half a spacing, which is at most \<open>x / 2 ^ 53\<close>.\<close>

lemma f64_round_upper:
  assumes "1 \<le> x"
  shows "f64_round x \<le> x + x / 2 ^ 53"
proof -
  let ?e = "halvings 1023 x"
  from assms have e: "f64_exponent x = ?e" by (simp add: f64_exponent_def)
  from halvings_lower [OF assms, of 1023] have h: "0 \<le> ?e" and p: "2 ^ nat ?e \<le> x"
    by simp_all
  define ulp where "ulp = pow2 (?e - 52)"
  have ulp_pos: "0 < ulp" by (simp add: ulp_def pow2_pos)
  have "pow2 (?e - 52) * 2 ^ 52 = 2 ^ nat ?e"
    using pow2_shift [OF h, of 52] by simp
  with p have ulp_le: "ulp * 2 ^ 52 \<le> x" by (simp add: ulp_def)
  have "of_int (round_half_even (x / ulp)) \<le> x / ulp + 1 / 2"
    by (rule round_half_even_upper)
  with ulp_pos have "of_int (round_half_even (x / ulp)) * ulp \<le> (x / ulp + 1 / 2) * ulp"
    by (simp only: mult_le_cancel_right_pos)
  also from ulp_pos have "\<dots> = x + ulp / 2" by (simp add: field_simps)
  also from ulp_le have "\<dots> \<le> x + x / 2 ^ 53" by simp
  finally show ?thesis by (simp add: f64_round_def Let_def e ulp_def)
qed

text \<open>The four fractions of \<open>calculateSummary\<close> as \<open>float64\<close> values.\<close>

lemma f64_fractions:
  "f64_round (50 / 100) = 1 / 2"
  "f64_round (90 / 100) = 8106479329266893 / 9007199254740992"
  "f64_round (95 / 100) = 4278419646001971 / 4503599627370496"
  "f64_round (99 / 100) = 4458563631096791 / 4503599627370496"
  by code_simp+

section \<open>Facts about percentile\<close>

lemma float_to_int_nonneg: "0 \<le> x \<Longrightarrow> float_to_int x = \<lfloor>x\<rfloor>"
  by (simp add: float_to_int_def)

lemma percentile_product_bounds:
  assumes "values \<noteq> []" and "0 \<le> p" and "p \<le> 1" and "length values \<le> 2 ^ 53"
  shows "0 \<le> real_of_int (int (length values) - 1) * p"
    and "real_of_int (int (length values) - 1) * p \<le> real_of_int (int (length values) - 1)"
    and "\<bar>real_of_int (int (length values) - 1) * p\<bar> < 2 ^ 53"
    and "\<bar>int (length values) - 1\<bar> < 2 ^ 53"
proof -
  let ?m = "int (length values) - 1"
  from assms(1) have m0: "0 \<le> ?m" by (cases "values") simp_all
  from assms(4) have "int (length values) \<le> 2 ^ 53"
    by (metis of_nat_le_iff of_nat_numeral of_nat_power)
  then have m1: "?m < 2 ^ 53" by simp
  with m0 show "\<bar>?m\<bar> < 2 ^ 53" by simp
  from m0 have r0: "0 \<le> real_of_int ?m" by (simp only: of_int_0_le_iff)
  from r0 assms(2) show x0: "0 \<le> real_of_int ?m * p" by (rule mult_nonneg_nonneg)
  from assms(3) r0 have "real_of_int ?m * p \<le> real_of_int ?m * 1"
    by (rule mult_left_mono)
  then show x1: "real_of_int ?m * p \<le> real_of_int ?m" by (simp only: mult_1_right)
  from m1 have "real_of_int ?m < 2 ^ 53"
    by (metis of_int_less_numeral_power_cancel_iff)
  with x0 x1 show "\<bar>real_of_int ?m * p\<bar> < 2 ^ 53" by simp
qed

lemma percentile_index_bounds:
  assumes "values \<noteq> []" and "0 \<le> p" and "p \<le> 1" and "length values \<le> 2 ^ 53"
  shows "0 \<le> \<lfloor>f64_round (real_of_int (int (length values) - 1) * p)\<rfloor>"
    and "\<lfloor>f64_round (real_of_int (int (length values) - 1) * p)\<rfloor> < int (length values)"
proof -
  let ?x = "real_of_int (int (length values) - 1) * p"
  note b = percentile_product_bounds [OF assms]
  from f64_round_nonneg [OF b(1)] show "0 \<le> \<lfloor>f64_round ?x\<rfloor>" by simp
  from f64_round_le_int [OF b(2) b(3)]
  have "f64_round ?x < real_of_int (int (length values))" by simp
  then show "\<lfloor>f64_round ?x\<rfloor> < int (length values)" by (simp add: floor_less_iff)
qed

lemma percentile_nonempty:
  assumes "values \<noteq> []" and "0 \<le> p" and "p \<le> 1" and "length values \<le> 2 ^ 53"
  shows "percentile values p =
           Inr (sort values ! nat \<lfloor>f64_round (real_of_int (int (length values) - 1) * p)\<rfloor>)"
proof -
  let ?x = "real_of_int (int (length values) - 1) * p"
  note b = percentile_product_bounds [OF assms]
  have c: "f64_round (real_of_int (int (length values) - 1)) =
             real_of_int (int (length values) - 1)"
    by (rule f64_round_of_int [OF b(4)])
  from f64_round_nonneg [OF b(1)]
  have "float_to_int (f64_round ?x) = \<lfloor>f64_round ?x\<rfloor>" by (rule float_to_int_nonneg)
  with percentile_index_bounds [OF assms] assms(1) c show ?thesis
    by (simp add: percentile_def index_at_def Let_def)
qed

text \<open>
  For a fraction of at most 199/200 the index is inside the list whatever the length:
  beyond \<open>2 ^ 53\<close> elements the two roundings add less than the fraction leaves.
\<close>

lemma percentile_total:
  assumes "vs \<noteq> []" and "0 \<le> p" and "p \<le> 199 / 200"
  shows "\<exists>v. percentile vs p = Inr v"
proof (cases "length vs \<le> 2 ^ 53")
  case True
  from assms(3) have "p \<le> 1" by simp
  from percentile_nonempty [OF assms(1,2) this True] show ?thesis by blast
next
  case False
  define M where "M = real_of_int (int (length vs) - 1)"
  define a where "a = f64_round M"
  define x where "x = a * p"
  from False have "1 < length vs" by (cases vs) (auto simp: not_le)
  then have M1: "1 \<le> M" by (simp add: M_def)
  then have a0: "0 \<le> a" unfolding a_def by (intro f64_round_nonneg) simp
  from f64_round_upper [OF M1] have a1: "a \<le> M + M / 2 ^ 53" by (simp add: a_def)
  from a0 assms(2) have x0: "0 \<le> x" by (simp add: x_def)
  have rM: "f64_round x \<le> M"
  proof (cases "1 \<le> x")
    case False
    then have "x \<le> of_int 1" "\<bar>x\<bar> < 2 ^ 53" using x0 by simp_all
    from f64_round_le_int [OF this] M1 show ?thesis by simp
  next
    case True
    from M1 have "0 \<le> M + M / 2 ^ 53" by simp
    from mult_mono [OF a1 assms(3) this assms(2)]
    have xb: "x \<le> (M + M / 2 ^ 53) * (199 / 200)" by (simp add: x_def)
    from f64_round_upper [OF True] have "f64_round x \<le> x + x / 2 ^ 53" .
    with xb M1 show ?thesis by simp
  qed
  from f64_round_nonneg [OF x0]
  have f: "float_to_int (f64_round x) = \<lfloor>f64_round x\<rfloor>" by (rule float_to_int_nonneg)
  from f64_round_nonneg [OF x0] have lo: "0 \<le> \<lfloor>f64_round x\<rfloor>" by simp
  from rM have "f64_round x < real_of_int (int (length vs))" by (simp add: M_def)
  then have hi: "\<lfloor>f64_round x\<rfloor> < int (length vs)" by (simp add: floor_less_iff)
  from assms(1) f lo hi show ?thesis
    by (simp add: percentile_def index_at_def Let_def x_def a_def M_def)
qed

lemma sorted_first_Min:
  assumes "sorted xs" and "xs \<noteq> []"
  shows "xs ! 0 = Min (set xs)"
proof -
  from assms obtain y ys where xs: "xs = y # ys" by (cases xs) auto
  with assms(1) have "\<forall>z \<in> set xs. y \<le> z" by auto
  then have "Min (set xs) = y" using xs by (intro Min_eqI) auto
  with xs show ?thesis by simp
qed

lemma sorted_last_Max:
  assumes "sorted xs" and "xs \<noteq> []"
  shows "xs ! (length xs - 1) = Max (set xs)"
proof -
  from assms(2) have len: "length xs - 1 < length xs" by (cases xs) simp_all
  have "\<forall>z \<in> set xs. z \<le> xs ! (length xs - 1)"
  proof
    fix z assume "z \<in> set xs"
    then obtain i where i: "i < length xs" "xs ! i = z" by (auto simp: in_set_conv_nth)
    then have "i \<le> length xs - 1" by simp
    from sorted_nth_mono [OF assms(1) this len] i show "z \<le> xs ! (length xs - 1)" by simp
  qed
  moreover from len have "xs ! (length xs - 1) \<in> set xs" by (rule nth_mem)
  ultimately have "Max (set xs) = xs ! (length xs - 1)" by (intro Max_eqI) auto
  then show ?thesis by simp
qed

lemma percentile_store_value:
  assumes "values < length h"
  shows "snd (percentile_store h values p) = percentile (h ! values) p"
  using assms
  by (simp add: percentile_store_def percentile_def make_slice_def copy_slice_def
      sort_Float64s_def Let_def nth_append)

lemma percentile_store_frame:
  assumes "a < length h"
  shows "fst (percentile_store h values p) ! a = h ! a"
  using assms
  by (simp add: percentile_store_def make_slice_def copy_slice_def
      sort_Float64s_def Let_def nth_append)

text \<open>
  The float product of 3 and the \<open>float64\<close> nearest to one third is 1, although the
  exact product is below 1; the same happens to 20 times the \<open>float64\<close> of 0.95, the
  product formed for the 95th percentile of 21 samples.
\<close>

lemma f64_product_rounds_up:
  "f64_round (3 * (6004799503160661 / 18014398509481984)) = 1"
  "\<lfloor>3 * (6004799503160661 / 18014398509481984 :: real)\<rfloor> = 0"
  "f64_round (20 * f64_round (95 / 100)) = 19"
  "\<lfloor>20 * f64_round (95 / 100)\<rfloor> = 18"
  by code_simp+

section \<open>Claims about percentile\<close>

text \<open>
  C1 (as amended). On a non-empty list of at most \<open>2 ^ 53\<close> values and a fraction \<open>p\<close>
  between 0 and 1, \<open>percentile\<close> returns the element of the values sorted ascending at
  the zero-based position obtained by rounding the product \<open>(count - 1) * p\<close> to
  \<open>float64\<close> and dropping the fraction of the rounded product. This position is inside
  the list, and it is \<open>floor ((count - 1) * p)\<close> or the position after it (the latter
  when the product rounds up to the next integer). For \<open>p = 0\<close> the result is the
  minimum and for \<open>p = 1\<close> the maximum of the values.
\<close>

theorem percentile_nearest_rank:
  assumes "values \<noteq> []" and "0 \<le> p" and "p \<le> 1" and "length values \<le> 2 ^ 53"
  shows "percentile values p =
           Inr (sort values ! nat \<lfloor>f64_round (real_of_int (int (length values) - 1) * p)\<rfloor>)
         \<and> nat \<lfloor>f64_round (real_of_int (int (length values) - 1) * p)\<rfloor> < length values
         \<and> \<lfloor>real_of_int (int (length values) - 1) * p\<rfloor>
               \<le> \<lfloor>f64_round (real_of_int (int (length values) - 1) * p)\<rfloor>
         \<and> \<lfloor>f64_round (real_of_int (int (length values) - 1) * p)\<rfloor>
               \<le> \<lfloor>real_of_int (int (length values) - 1) * p\<rfloor> + 1
         \<and> percentile values 0 = Inr (Min (set values))
         \<and> percentile values 1 = Inr (Max (set values))"
proof -
  let ?x = "real_of_int (int (length values) - 1) * p"
  have "length (sort values) = length values" by simp
  with assms(1) have "sort values \<noteq> []" by (metis length_0_conv)
  then have srt: "sorted (sort values)" "sort values \<noteq> []" by simp_all
  note b = percentile_product_bounds [OF assms]
  have a: "percentile values p = Inr (sort values ! nat \<lfloor>f64_round ?x\<rfloor>)"
    by (rule percentile_nonempty [OF assms])
  have i: "nat \<lfloor>f64_round ?x\<rfloor> < length values"
    using percentile_index_bounds [OF assms] by linarith
  have "of_int \<lfloor>?x\<rfloor> \<le> ?x" by simp
  from f64_round_ge_int [OF this b(3)] have lo: "\<lfloor>?x\<rfloor> \<le> \<lfloor>f64_round ?x\<rfloor>"
    by (simp add: le_floor_iff)
  have "?x \<le> of_int (\<lfloor>?x\<rfloor> + 1)" by (simp add: less_imp_le)
  from f64_round_le_int [OF this b(3)] have hi: "\<lfloor>f64_round ?x\<rfloor> \<le> \<lfloor>?x\<rfloor> + 1"
    by (simp add: floor_le_iff)
  have z: "f64_round 0 = 0" using f64_round_of_int [of 0] by simp
  have "percentile values 0 = Inr (sort values ! 0)"
    using percentile_nonempty [OF assms(1) _ _ assms(4), of 0] by (simp add: z)
  with sorted_first_Min [OF srt] have c: "percentile values 0 = Inr (Min (set values))"
    by simp
  have m: "f64_round (real_of_int (int (length values) - 1)) =
             real_of_int (int (length values) - 1)"
    by (rule f64_round_of_int [OF b(4)])
  have "(0::real) \<le> 1" "(1::real) \<le> 1" by simp_all
  from percentile_nonempty [OF assms(1) this assms(4)]
  have "percentile values 1 =
          Inr (sort values ! nat \<lfloor>f64_round (real_of_int (int (length values) - 1) * 1)\<rfloor>)" .
  then have "percentile values 1 = Inr (sort values ! nat (int (length values) - 1))"
    by (simp only: mult_1_right m floor_of_int)
  moreover from assms(1) have "nat (int (length values) - 1) = length values - 1" by simp
  ultimately have "percentile values 1 = Inr (sort values ! (length (sort values) - 1))"
    by simp
  with sorted_last_Max [OF srt] have d: "percentile values 1 = Inr (Max (set values))"
    by simp
  from a i lo hi c d show ?thesis by simp
qed

theorem percentile_nearest_rank_witness:
  "[50, 70, 60, 80, 40 :: real] \<noteq> [] \<and> (0 :: real) \<le> 1 / 2 \<and> (1 / 2 :: real) \<le> 1
   \<and> length [50, 70, 60, 80, 40 :: real] \<le> 2 ^ 53
   \<and> percentile [50, 70, 60, 80, 40] (1 / 2) = Inr 60
   \<and> percentile [50, 70, 60, 80, 40] 0 = Inr 40
   \<and> percentile [50, 70, 60, 80, 40] 1 = Inr 80"
proof -
  have l: "length [50, 70, 60, 80, 40 :: real] \<le> 2 ^ 53" by simp
  have r: "f64_round 2 = 2" using f64_round_of_int [of 2] by simp
  from percentile_nearest_rank [of "[50, 70, 60, 80, 40]" "1 / 2"] l r show ?thesis
    by simp
qed

text \<open>
  The claim as it stands, with the position \<open>floor ((count - 1) * p)\<close> of the exact
  product, fails for four values and the \<open>float64\<close> nearest to one third: the exact
  product is below 1 and selects the smallest value, the rounded product is 1 and
  \<open>percentile\<close> returns the second smallest.
\<close>

theorem percentile_not_floor_of_exact_product:
  "(0 :: real) \<le> 6004799503160661 / 18014398509481984
   \<and> (6004799503160661 / 18014398509481984 :: real) \<le> 1
   \<and> percentile [10, 20, 30, 40] (6004799503160661 / 18014398509481984) = Inr 20
   \<and> sort [10, 20, 30, 40 :: real]
       ! nat \<lfloor>real_of_int (int (length [10, 20, 30, 40 :: real]) - 1)
                * (6004799503160661 / 18014398509481984)\<rfloor> = 10"
proof -
  have r3: "f64_round 3 = 3" using f64_round_of_int [of 3] by simp
  have "percentile [10, 20, 30, 40] (6004799503160661 / 18014398509481984) = Inr 20"
    using f64_product_rounds_up(1)
    by (simp add: percentile_def index_at_def float_to_int_def r3)
  moreover have "sort [10, 20, 30, 40 :: real]
       ! nat \<lfloor>real_of_int (int (length [10, 20, 30, 40 :: real]) - 1)
                * (6004799503160661 / 18014398509481984)\<rfloor> = 10"
    using f64_product_rounds_up(2) by simp
  ultimately show ?thesis by simp
qed

text \<open>
  C10. \<open>percentile\<close> leaves every slice that existed before the call as it was, the
  caller's \<open>values\<close> included: the only array it writes is the private copy it allocates,
  which ends up holding the sorted values. Its result is that of the function on the
  contents of \<open>values\<close>.
\<close>

theorem percentile_preserves_input:
  assumes "values < length h"
  shows "fst (percentile_store h values p) ! values = h ! values
         \<and> take (length h) (fst (percentile_store h values p)) = h
         \<and> (h ! values \<noteq> [] \<longrightarrow>
              fst (percentile_store h values p) = h @ [sort (h ! values)])
         \<and> snd (percentile_store h values p) = percentile (h ! values) p"
proof -
  have a: "fst (percentile_store h values p) ! values = h ! values"
    by (rule percentile_store_frame [OF assms])
  have b: "h ! values \<noteq> [] \<longrightarrow> fst (percentile_store h values p) = h @ [sort (h ! values)]"
    using assms
    by (simp add: percentile_store_def make_slice_def copy_slice_def
        sort_Float64s_def Let_def nth_append)
  have c: "take (length h) (fst (percentile_store h values p)) = h"
  proof (cases "h ! values = []")
    case True
    then show ?thesis by (simp add: percentile_store_def)
  next
    case False
    with b show ?thesis by simp
  qed
  from a b c percentile_store_value [OF assms] show ?thesis by simp
qed

theorem percentile_preserves_input_witness:
  "(0 :: nat) < length [[3, 1, 2 :: real]]
   \<and> percentile_store [[3, 1, 2]] 0 (1 / 2) = ([[3, 1, 2], [1, 2, 3]], Inr 2)"
proof -
  have len: "(0 :: nat) < length [[3, 1, 2 :: real]]" by simp
  have r: "f64_round 2 = 2" "f64_round 1 = 1"
    using f64_round_of_int [of 2] f64_round_of_int [of 1] by simp_all
  have "percentile [3, 1, 2] (1 / 2) = Inr 2"
    by (simp add: percentile_def index_at_def float_to_int_def r)
  with percentile_preserves_input [OF len, of "1 / 2"] len show ?thesis
    by (simp add: prod_eq_iff)
qed

section \<open>Facts about calculateSummary\<close>

lemma tally_loop_values:
  "ttfbValues (tally_loop rs t) =
     ttfbValues t @ map (\<lambda>r. real_of_int (Microseconds (TTFB r)) / 1000)
                      (filter (\<lambda>r. Error r = []) rs)"
  by (induction rs arbitrary: t) (simp_all add: tally_step_def Let_def)

lemma tally_loop_cdn:
  "cdnLatencyValues (tally_loop rs t) =
     cdnLatencyValues t @ map CDNLatency (filter (\<lambda>r. Error r = []) rs)"
  by (induction rs arbitrary: t) (simp_all add: tally_step_def Let_def)

lemma tally_loop_flag:
  "hasXResponseTime (tally_loop rs t) =
     (hasXResponseTime t \<or> (\<exists>r \<in> set rs. Error r = [] \<and> 0 < XResponseTime r))"
  by (induction rs arbitrary: t) (auto simp add: tally_step_def Let_def)

lemma tally_loop_all_failed:
  assumes "\<forall>r \<in> set rs. Error r \<noteq> []"
  shows "tally_loop rs t =
           t\<lparr>summary := (summary t)\<lparr>FailCount := FailCount (summary t) + int (length rs)\<rparr>\<rparr>"
  using assms by (induction rs arbitrary: t) (simp_all add: tally_step_def)

lemma f64_fraction_bounds:
  "0 \<le> f64_round (50 / 100)" "f64_round (50 / 100) \<le> 199 / 200"
  "0 \<le> f64_round (90 / 100)" "f64_round (90 / 100) \<le> 199 / 200"
  "0 \<le> f64_round (95 / 100)" "f64_round (95 / 100) \<le> 199 / 200"
  "0 \<le> f64_round (99 / 100)" "f64_round (99 / 100) \<le> 199 / 200"
  by (simp_all only: f64_fractions)

lemma distribution_total:
  assumes "vs \<noteq> []"
  shows "\<exists>d. distribution vs = Inr d"
proof -
  from assms have i0: "index_at vs 0 = Inr (vs ! 0)" by (simp add: index_at_def)
  obtain s mn mx where e: "extremes_loop vs (0, vs ! 0, vs ! 0) = (s, mn, mx)"
    by (cases "extremes_loop vs (0, vs ! 0, vs ! 0)") auto
  from assms have d: "fdiv s (real (length vs)) = Inr (s / real (length vs))"
    by (simp add: fdiv_def)
  obtain p50 where p50: "percentile vs (f64_round (50 / 100)) = Inr p50"
    using percentile_total [OF assms f64_fraction_bounds(1,2)] by blast
  obtain p90 where p90: "percentile vs (f64_round (90 / 100)) = Inr p90"
    using percentile_total [OF assms f64_fraction_bounds(3,4)] by blast
  obtain p95 where p95: "percentile vs (f64_round (95 / 100)) = Inr p95"
    using percentile_total [OF assms f64_fraction_bounds(5,6)] by blast
  obtain p99 where p99: "percentile vs (f64_round (99 / 100)) = Inr p99"
    using percentile_total [OF assms f64_fraction_bounds(7,8)] by blast
  show ?thesis
    unfolding distribution_def
    by (simp only: i0 e d p50 p90 p95 p99 bind_err_def sum.case prod.case Let_def) blast
qed

lemma calculateSummary_flag:
  "\<exists>s. calculateSummary endpoint results = Inr s
       \<and> (HasCDN s \<longleftrightarrow> (\<exists>r \<in> set results. Error r = [] \<and> 0 < XResponseTime r))"
proof (cases "filter (\<lambda>r. Error r = []) results = []")
  case True
  then have "\<forall>r \<in> set results. Error r \<noteq> []" by (simp add: filter_empty_conv)
  then show ?thesis
    by (simp add: calculateSummary_def Let_def tally_loop_all_failed newSummary_def)
next
  case False
  let ?t = "tally_loop results
              \<lparr>summary = newSummary endpoint results, ttfbValues = [],
               cdnLatencyValues = [], xResponseTimeSum = 0, hasXResponseTime = False\<rparr>"
  from False have t: "ttfbValues ?t \<noteq> []" and c: "cdnLatencyValues ?t \<noteq> []"
    by (simp_all add: tally_loop_values tally_loop_cdn)
  obtain d1 where d1: "distribution (ttfbValues ?t) = Inr d1"
    using distribution_total [OF t] by blast
  obtain d2 where d2: "distribution (cdnLatencyValues ?t) = Inr d2"
    using distribution_total [OF c] by blast
  from t have x: "fdiv (xResponseTimeSum ?t) (real (length (ttfbValues ?t)))
      = Inr (xResponseTimeSum ?t / real (length (ttfbValues ?t)))"
    by (simp add: fdiv_def)
  have f: "hasXResponseTime ?t = (\<exists>r \<in> set results. Error r = [] \<and> 0 < XResponseTime r)"
    by (simp add: tally_loop_flag)
  show ?thesis
    unfolding calculateSummary_def Let_def using t d1 d2 x f
    by (simp add: bind_err_def split: prod.splits)
qed

lemma summaryRow_no_cdn:
  "\<not> HasCDN s \<Longrightarrow> drop 9 (summaryRow fmt2 fmtCount s) = [''-'', ''-'', ''-'', ''-'', ''-'']"
  by (simp add: summaryRow_def)

section \<open>Facts about measureRequest\<close>

lemma measureRequest_no_origin:
  assumes "origin_header (Responds ttfb reused resp) = []
           \<or> parseFloat (origin_text (Responds ttfb reused resp)) = None
           \<or> parseFloat (origin_text (Responds ttfb reused resp)) = Some 0"
  shows "measureRequest parseFloat (Responds ttfb reused resp) =
           RequestResult_zero
             \<lparr>TTFB := ttfb, StatusCode := resp_StatusCode resp, Reused := reused,
              ActualProto := resp_Proto resp,
              CDNLatency := real_of_int (Microseconds ttfb) / 1000\<rparr>"
  using assms
  by (auto simp add: measureRequest_def origin_header_def origin_text_def Let_def
      RequestResult_zero_def split: option.splits)

lemma measureRequest_origin:
  assumes "origin_header (Responds ttfb reused resp) \<noteq> []"
      and "parseFloat (origin_text (Responds ttfb reused resp)) = Some val"
  shows "measureRequest parseFloat (Responds ttfb reused resp) =
           RequestResult_zero
             \<lparr>TTFB := ttfb, StatusCode := resp_StatusCode resp, Reused := reused,
              ActualProto := resp_Proto resp, XResponseTime := val * 1000,
              CDNLatency := real_of_int (Microseconds ttfb) / 1000 - val * 1000\<rparr>"
  using assms
  by (auto simp add: measureRequest_def origin_header_def origin_text_def Let_def
      RequestResult_zero_def split: option.splits)

lemma measureRequest_success:
  "Error (measureRequest parseFloat (Responds ttfb reused resp)) = []
   \<and> TTFB (measureRequest parseFloat (Responds ttfb reused resp)) = ttfb
   \<and> CDNLatency (measureRequest parseFloat (Responds ttfb reused resp)) =
       real_of_int (Microseconds ttfb) / 1000
         - XResponseTime (measureRequest parseFloat (Responds ttfb reused resp))"
  by (simp add: measureRequest_def Let_def RequestResult_zero_def split: option.splits)

lemma measureRequest_failed:
  assumes "failed_exchange ex"
  shows "TTFB (measureRequest parseFloat ex) = 0
         \<and> XResponseTime (measureRequest parseFloat ex) = 0
         \<and> CDNLatency (measureRequest parseFloat ex) = 0
         \<and> Error (measureRequest parseFloat ex) \<noteq> []"
  using assms
  by (cases ex)
     (simp_all add: failed_exchange_def measureRequest_def RequestResult_zero_def
        msg_create_failed_def msg_request_failed_def)


lemma measureRequest_no_header_zero:
  assumes "origin_header ex = []"
  shows "XResponseTime (measureRequest parseFloat ex) = 0"
  using assms
  by (cases ex)
     (simp_all add: measureRequest_def origin_header_def Let_def RequestResult_zero_def)

text \<open>
  C2. A response yields a sample without error whose CDN latency is its time to first
  byte in milliseconds minus its origin time in milliseconds; when the response carries
  the origin-time header and the header parses to \<open>val\<close> seconds, the origin time is
  \<open>val * 1000\<close> and the CDN latency is the time to first byte minus that.
\<close>

theorem cdn_latency_is_ttfb_minus_origin:
  "Error (measureRequest parseFloat (Responds ttfb reused resp)) = []
   \<and> TTFB (measureRequest parseFloat (Responds ttfb reused resp)) = ttfb
   \<and> CDNLatency (measureRequest parseFloat (Responds ttfb reused resp)) =
       real_of_int (Microseconds ttfb) / 1000
       - XResponseTime (measureRequest parseFloat (Responds ttfb reused resp))
   \<and> (origin_header (Responds ttfb reused resp) \<noteq> []
        \<and> parseFloat (origin_text (Responds ttfb reused resp)) = Some val
      \<longrightarrow> XResponseTime (measureRequest parseFloat (Responds ttfb reused resp)) = val * 1000
        \<and> CDNLatency (measureRequest parseFloat (Responds ttfb reused resp)) =
            real_of_int (Microseconds ttfb) / 1000 - val * 1000)"
proof -
  have "origin_header (Responds ttfb reused resp) \<noteq> []
        \<and> parseFloat (origin_text (Responds ttfb reused resp)) = Some val
      \<longrightarrow> XResponseTime (measureRequest parseFloat (Responds ttfb reused resp)) = val * 1000
        \<and> CDNLatency (measureRequest parseFloat (Responds ttfb reused resp)) =
            real_of_int (Microseconds ttfb) / 1000 - val * 1000"
    by (auto simp: measureRequest_origin)
  with measureRequest_success [of parseFloat ttfb reused resp] show ?thesis by simp
qed

lemma parse_0045: "ParseFloat ''0.045'' = Some (45 / 1000)"
  by (simp add: ParseFloat_def split_sign_def is_digit_def parse_exponent_def
      digits_value_def scale10_def)

lemma parse_abc: "ParseFloat ''abc'' = None"
  by (simp add: ParseFloat_def split_sign_def is_digit_def parse_exponent_def
      digits_value_def scale10_def)

lemma parse_0: "ParseFloat ''0'' = Some 0"
  by (simp add: ParseFloat_def split_sign_def is_digit_def parse_exponent_def
      digits_value_def scale10_def)

lemma trim_0045s: "TrimSpace (TrimSuffix ''0.045s'' ''s'') = ''0.045''"
  by code_simp

lemma trim_abc: "TrimSpace (TrimSuffix ''abc'' ''s'') = ''abc''"
  by code_simp

lemma trim_0s: "TrimSpace (TrimSuffix ''0s'' ''s'') = ''0''"
  by code_simp

lemma trim_0: "TrimSpace (TrimSuffix ''0'' ''s'') = ''0''"
  by code_simp

lemma origin_header_reply:
  "origin_header (reply None) = []" "origin_header (reply (Some (c # cs))) = c # cs"
  by (simp_all add: origin_header_def reply_def reply_response_def Header_Get_def)

lemma microseconds_100ms: "Microseconds 100000000 = 100000"
  by code_simp

theorem cdn_latency_is_ttfb_minus_origin_witness:
  "origin_header (reply (Some ''0.045s'')) \<noteq> []
   \<and> ParseFloat (origin_text (reply (Some ''0.045s''))) = Some (45 / 1000)
   \<and> XResponseTime (measureRequest ParseFloat (reply (Some ''0.045s''))) = 45
   \<and> CDNLatency (measureRequest ParseFloat (reply (Some ''0.045s''))) = 55"
proof -
  have h: "origin_header (reply (Some ''0.045s'')) \<noteq> []"
    by (simp add: origin_header_reply)
  have p: "ParseFloat (origin_text (reply (Some ''0.045s''))) = Some (45 / 1000)"
    by (simp add: origin_text_def origin_header_reply trim_0045s parse_0045)
  from cdn_latency_is_ttfb_minus_origin
         [of ParseFloat 100000000 False "reply_response (Some ''0.045s'')" "45 / 1000",
          folded reply_def] h p
       microseconds_100ms
  show ?thesis by simp
qed

text \<open>
  C3 (as amended). When the origin-time header is absent or does not parse, the sample
  has origin time 0 and a CDN latency equal to the full time to first byte in
  milliseconds, and it carries nothing else: it is the sample that a header reporting
  an origin time of exactly zero produces as well.
\<close>

theorem no_origin_data_sample:
  assumes "origin_header (Responds ttfb reused resp) = []
           \<or> parseFloat (origin_text (Responds ttfb reused resp)) = None
           \<or> parseFloat (origin_text (Responds ttfb reused resp)) = Some 0"
  shows "measureRequest parseFloat (Responds ttfb reused resp) =
           RequestResult_zero
             \<lparr>TTFB := ttfb, StatusCode := resp_StatusCode resp, Reused := reused,
              ActualProto := resp_Proto resp,
              CDNLatency := real_of_int (Microseconds ttfb) / 1000\<rparr>"
  using assms by (rule measureRequest_no_origin)

theorem no_origin_data_sample_witness:
  "ParseFloat (origin_text (reply (Some ''abc''))) = None
   \<and> measureRequest ParseFloat (reply (Some ''abc'')) =
       RequestResult_zero
         \<lparr>TTFB := 100000000, StatusCode := 200, Reused := False,
          ActualProto := ''HTTP/2.0'', CDNLatency := 100\<rparr>"
proof -
  have p: "ParseFloat (origin_text (reply (Some ''abc''))) = None"
    by (simp add: origin_text_def origin_header_reply trim_abc parse_abc)
  then have "origin_header (reply (Some ''abc'')) = []
           \<or> ParseFloat (origin_text (reply (Some ''abc''))) = None
           \<or> ParseFloat (origin_text (reply (Some ''abc''))) = Some 0" by simp
  from no_origin_data_sample [where parseFloat = ParseFloat, OF this [unfolded reply_def]] p microseconds_100ms
  show ?thesis by (simp add: reply_def reply_response_def)
qed

theorem origin_zero_and_absent_same_sample:
  "measureRequest ParseFloat (reply None) = measureRequest ParseFloat (reply (Some ''0''))"
proof -
  have a: "origin_header (reply None) = []
           \<or> ParseFloat (origin_text (reply None)) = None
           \<or> ParseFloat (origin_text (reply None)) = Some 0"
    by (simp add: origin_header_reply)
  have b: "origin_header (reply (Some ''0'')) = []
           \<or> ParseFloat (origin_text (reply (Some ''0''))) = None
           \<or> ParseFloat (origin_text (reply (Some ''0''))) = Some 0"
    by (simp add: origin_text_def origin_header_reply trim_0 parse_0)
  from measureRequest_no_origin [where parseFloat = ParseFloat, OF a [unfolded reply_def]]
       measureRequest_no_origin [where parseFloat = ParseFloat, OF b [unfolded reply_def]]
  show ?thesis by (simp add: reply_def reply_response_def)
qed

text \<open>
  C8 (as amended). The header value is parsed after removing one trailing \<open>s\<close> and the
  surrounding white space, and the seconds are multiplied by 1000: \<open>0.045s\<close> gives an
  origin time of 45 ms. A value that does not parse, such as \<open>abc\<close>, leaves the origin
  time at 0 and the CDN latency at the full time to first byte.
\<close>

theorem origin_header_parsing:
  "(origin_header (Responds ttfb reused resp) \<noteq> [] \<longrightarrow>
      XResponseTime (measureRequest parseFloat (Responds ttfb reused resp)) =
        (case parseFloat
                (TrimSpace (TrimSuffix (origin_header (Responds ttfb reused resp)) ''s''))
         of Some val \<Rightarrow> val * 1000 | None \<Rightarrow> 0))
   \<and> (origin_header (Responds ttfb reused resp) = ''0.045s'' \<longrightarrow>
      XResponseTime (measureRequest ParseFloat (Responds ttfb reused resp)) = 45)
   \<and> (origin_header (Responds ttfb reused resp) = ''abc'' \<longrightarrow>
      XResponseTime (measureRequest ParseFloat (Responds ttfb reused resp)) = 0
      \<and> CDNLatency (measureRequest ParseFloat (Responds ttfb reused resp)) =
          real_of_int (Microseconds ttfb) / 1000)"
proof -
  let ?ex = "Responds ttfb reused resp"
  have gen: "origin_header ?ex \<noteq> [] \<longrightarrow>
      XResponseTime (measureRequest pf ?ex) =
        (case pf (TrimSpace (TrimSuffix (origin_header ?ex) ''s''))
         of Some val \<Rightarrow> val * 1000 | None \<Rightarrow> 0)" for pf
    by (simp add: measureRequest_def origin_header_def Let_def RequestResult_zero_def
        split: option.splits)
  have a: "origin_header ?ex = ''0.045s'' \<longrightarrow> XResponseTime (measureRequest ParseFloat ?ex) = 45"
    using gen [of ParseFloat] by (simp add: trim_0045s parse_0045)
  have b: "origin_header ?ex = ''abc'' \<longrightarrow> XResponseTime (measureRequest ParseFloat ?ex) = 0"
    using gen [of ParseFloat] by (simp add: trim_abc parse_abc)
  from gen [of parseFloat] a b measureRequest_success [of ParseFloat ttfb reused resp]
  show ?thesis by simp
qed

theorem origin_header_parsing_witness:
  "origin_header (reply (Some ''0.045s'')) = ''0.045s''
   \<and> XResponseTime (measureRequest ParseFloat (reply (Some ''0.045s''))) = 45
   \<and> origin_header (reply (Some ''abc'')) = ''abc''
   \<and> XResponseTime (measureRequest ParseFloat (reply (Some ''abc''))) = 0
   \<and> CDNLatency (measureRequest ParseFloat (reply (Some ''abc''))) = 100"
  using origin_header_parsing
          [of 100000000 False "reply_response (Some ''0.045s'')" ParseFloat, folded reply_def]
        origin_header_parsing
          [of 100000000 False "reply_response (Some ''abc'')" ParseFloat, folded reply_def]
        microseconds_100ms
  by (simp add: origin_header_reply)

theorem malformed_origin_is_zero:
  "XResponseTime (measureRequest ParseFloat (reply (Some ''abc''))) = 0
   \<and> measureRequest ParseFloat (reply (Some ''abc'')) =
       measureRequest ParseFloat (reply (Some ''0s''))"
proof -
  have a: "origin_header (reply (Some ''abc'')) = []
           \<or> ParseFloat (origin_text (reply (Some ''abc''))) = None
           \<or> ParseFloat (origin_text (reply (Some ''abc''))) = Some 0"
    by (simp add: origin_text_def origin_header_reply trim_abc parse_abc)
  have b: "origin_header (reply (Some ''0s'')) = []
           \<or> ParseFloat (origin_text (reply (Some ''0s''))) = None
           \<or> ParseFloat (origin_text (reply (Some ''0s''))) = Some 0"
    by (simp add: origin_text_def origin_header_reply trim_0s parse_0)
  from measureRequest_no_origin [where parseFloat = ParseFloat, OF a [unfolded reply_def]]
       measureRequest_no_origin [where parseFloat = ParseFloat, OF b [unfolded reply_def]]
  show ?thesis by (simp add: reply_def reply_response_def RequestResult_zero_def)
qed

text \<open>
  C4. When no sample succeeded, \<open>calculateSummary\<close> returns (it meets neither a division
  by zero nor an index out of range) the summary in which every statistic is zero, with
  all samples counted as failures; and \<open>percentile\<close> of the empty list returns zero.
\<close>

theorem no_success_summary_is_zero:
  assumes "\<forall>r \<in> set results. Error r \<noteq> []"
  shows "calculateSummary endpoint results =
           Inr \<lparr>EndpointName = Name endpoint,
                Summary_Protocol = Protocol_String (Protocol endpoint),
                TotalTests = int (length results),
                SuccessCount = 0, FailCount = int (length results), HasCDN = False,
                TTFBAvg = 0, TTFBMin = 0, TTFBMax = 0,
                TTFBP50 = 0, TTFBP90 = 0, TTFBP95 = 0, TTFBP99 = 0,
                CDNLatencyAvg = 0, CDNLatencyMin = 0, CDNLatencyMax = 0,
                CDNLatencyP50 = 0, CDNLatencyP90 = 0, CDNLatencyP95 = 0, CDNLatencyP99 = 0,
                XResponseTimeAvg = 0\<rparr>
         \<and> percentile [] p = Inr 0"
proof -
  have "percentile [] p = Inr 0" by (simp add: percentile_def)
  moreover have "calculateSummary endpoint results =
      Inr ((newSummary endpoint results)\<lparr>FailCount := int (length results)\<rparr>)"
    by (simp add: calculateSummary_def Let_def tally_loop_all_failed [OF assms] newSummary_def)
  ultimately show ?thesis by (simp add: newSummary_def)
qed

theorem no_success_summary_is_zero_witness:
  "Error (timed_out 1) \<noteq> [] \<and> Error (timed_out 2) \<noteq> []
   \<and> calculateSummary (edge ''A'' ''192.0.2.1'' HTTP2) [timed_out 1, timed_out 2] =
           Inr \<lparr>EndpointName = ''A'', Summary_Protocol = ''HTTP/2'',
                TotalTests = 2, SuccessCount = 0, FailCount = 2, HasCDN = False,
                TTFBAvg = 0, TTFBMin = 0, TTFBMax = 0,
                TTFBP50 = 0, TTFBP90 = 0, TTFBP95 = 0, TTFBP99 = 0,
                CDNLatencyAvg = 0, CDNLatencyMin = 0, CDNLatencyMax = 0,
                CDNLatencyP50 = 0, CDNLatencyP90 = 0, CDNLatencyP95 = 0, CDNLatencyP99 = 0,
                XResponseTimeAvg = 0\<rparr>
   \<and> percentile [] (1 / 2) = Inr 0"
proof -
  have e: "Error (timed_out 1) \<noteq> [] \<and> Error (timed_out 2) \<noteq> []"
    by (simp add: timed_out_def RequestResult_zero_def)
  then have h: "\<forall>r \<in> set [timed_out 1, timed_out 2]. Error r \<noteq> []" by simp
  from no_success_summary_is_zero [OF h, of "edge ''A'' ''192.0.2.1'' HTTP2" "1 / 2"] e
  show ?thesis
    by (simp add: edge_def Protocol_String_def HTTP1_def HTTP2_def)
qed

text \<open>
  C5. \<open>calculateSummary\<close> returns a summary whose \<open>HasCDN\<close> flag is set exactly when some
  sample without error has a positive origin time. When every sample comes from a probe
  whose origin-time header was missing (or that failed), the flag is not set; and when
  the flag is not set, the five CDN-latency and origin-time cells of the summary table
  row hold \<open>-\<close> in place of numbers.
\<close>

theorem has_cdn_flag:
  "\<exists>s. calculateSummary endpoint results = Inr s
       \<and> (HasCDN s \<longleftrightarrow> (\<exists>r \<in> set results. Error r = [] \<and> 0 < XResponseTime r))
       \<and> ((\<forall>r \<in> set results. \<exists>ex i. r = stamped parseFloat ex i \<and> origin_header ex = [])
            \<longrightarrow> \<not> HasCDN s)
       \<and> (\<not> HasCDN s \<longrightarrow>
            drop 9 (summaryRow fmt2 fmtCount s) = [''-'', ''-'', ''-'', ''-'', ''-''])"
proof -
  obtain s where s: "calculateSummary endpoint results = Inr s"
    and f: "HasCDN s \<longleftrightarrow> (\<exists>r \<in> set results. Error r = [] \<and> 0 < XResponseTime r)"
    using calculateSummary_flag [of endpoint results] by blast
  have "\<not> HasCDN s"
    if h: "\<forall>r \<in> set results. \<exists>ex i. r = stamped parseFloat ex i \<and> origin_header ex = []"
  proof -
    have "XResponseTime r = 0" if "r \<in> set results" for r
    proof -
      from h that obtain ex i where "r = stamped parseFloat ex i" "origin_header ex = []"
        by blast
      then show ?thesis by (simp add: stamped_def measureRequest_no_header_zero)
    qed
    with f show ?thesis by auto
  qed
  with s f summaryRow_no_cdn [of s fmt2 fmtCount] show ?thesis by blast
qed


theorem has_cdn_flag_witness:
  "origin_header (reply None) = []
   \<and> (\<exists>s. calculateSummary (edge ''A'' ''192.0.2.1'' HTTP2) [stamped ParseFloat (reply None) 1]
              = Inr s
          \<and> \<not> HasCDN s
          \<and> drop 9 (summaryRow (\<lambda>x. ''0.00'') (\<lambda>a b. ''1/1'') s)
              = [''-'', ''-'', ''-'', ''-'', ''-''])"
proof -
  have o: "origin_header (reply None) = []" by (rule origin_header_reply(1))
  then have h: "\<forall>r \<in> set [stamped ParseFloat (reply None) 1].
             \<exists>ex i. r = stamped ParseFloat ex i \<and> origin_header ex = []"
    by auto
  from has_cdn_flag [of "edge ''A'' ''192.0.2.1'' HTTP2" "[stamped ParseFloat (reply None) 1]"
                        ParseFloat "\<lambda>x. ''0.00''" "\<lambda>a b. ''1/1''"] h o
  show ?thesis by blast
qed

section \<open>Facts about the round scheduler\<close>

lemma probe_length: "length (probe parseFloat world tasks idx results) = length results"
  by (simp add: probe_def Let_def)

lemma fold_probe_length:
  "length (fold (probe parseFloat world tasks) completion results) = length results"
  by (induction completion arbitrary: results) (simp_all add: probe_length)

lemma fold_probe_nth:
  assumes "distinct completion" and "length results = length tasks" and "i < length tasks"
  shows "fold (probe parseFloat world tasks) completion results ! i =
           (if i \<in> set completion
            then \<lparr>er_Endpoint = task_Endpoint (tasks ! i),
                  er_Result = stamped parseFloat (world i) (task_Index (tasks ! i))\<rparr>
            else results ! i)"
  using assms
proof (induction completion arbitrary: results)
  case Nil
  then show ?case by simp
next
  case (Cons c cs)
  have len: "length (probe parseFloat world tasks c results) = length tasks"
    using Cons.prems(2) by (simp add: probe_length)
  from Cons.prems(1) have d: "distinct cs" and c: "c \<notin> set cs" by simp_all
  have "fold (probe parseFloat world tasks) (c # cs) results ! i =
          fold (probe parseFloat world tasks) cs (probe parseFloat world tasks c results) ! i"
    by simp
  also have "\<dots> = (if i \<in> set cs
            then \<lparr>er_Endpoint = task_Endpoint (tasks ! i),
                  er_Result = stamped parseFloat (world i) (task_Index (tasks ! i))\<rparr>
            else probe parseFloat world tasks c results ! i)"
    by (rule Cons.IH [OF d len Cons.prems(3)])
  also have "\<dots> = (if i \<in> set (c # cs)
            then \<lparr>er_Endpoint = task_Endpoint (tasks ! i),
                  er_Result = stamped parseFloat (world i) (task_Index (tasks ! i))\<rparr>
            else results ! i)"
    using Cons.prems(2,3) c by (auto simp: probe_def Let_def stamped_def)
  finally show ?case .
qed

lemma runParallelRound_eq:
  assumes "is_completion_order completion (length tasks)"
  shows "runParallelRound parseFloat world completion tasks =
           map (\<lambda>i. \<lparr>er_Endpoint = task_Endpoint (tasks ! i),
                      er_Result = stamped parseFloat (world i) (task_Index (tasks ! i))\<rparr>)
               [0..<length tasks]"
proof (rule nth_equalityI)
  show "length (runParallelRound parseFloat world completion tasks) =
        length (map (\<lambda>i. \<lparr>er_Endpoint = task_Endpoint (tasks ! i),
                      er_Result = stamped parseFloat (world i) (task_Index (tasks ! i))\<rparr>)
               [0..<length tasks])"
    by (simp add: runParallelRound_def fold_probe_length)
next
  fix i assume "i < length (runParallelRound parseFloat world completion tasks)"
  then have i: "i < length tasks" by (simp add: runParallelRound_def fold_probe_length)
  from assms have d: "distinct completion" and s: "i \<in> set completion"
    using i by (simp_all add: is_completion_order_def)
  show "runParallelRound parseFloat world completion tasks ! i =
        map (\<lambda>i. \<lparr>er_Endpoint = task_Endpoint (tasks ! i),
                      er_Result = stamped parseFloat (world i) (task_Index (tasks ! i))\<rparr>)
               [0..<length tasks] ! i"
    unfolding runParallelRound_def
    using fold_probe_nth [OF d _ i, of "replicate (length tasks) EndpointResult_zero"] s i
    by simp
qed

text \<open>
  C7. A probe whose request construction or exchange fails yields a sample with zero
  timing fields and a non-empty error text. The round it belongs to still returns one
  result per task, in task order: the failed probe's slot holds that sample and every
  slot holds the sample of its own probe, whatever the completion order.
\<close>

theorem failed_probe_is_data:
  assumes "failed_exchange (world i)" and "i < length tasks"
      and "is_completion_order completion (length tasks)"
  shows "TTFB (measureRequest parseFloat (world i)) = 0
         \<and> XResponseTime (measureRequest parseFloat (world i)) = 0
         \<and> CDNLatency (measureRequest parseFloat (world i)) = 0
         \<and> Error (measureRequest parseFloat (world i)) \<noteq> []
         \<and> length (runParallelRound parseFloat world completion tasks) = length tasks
         \<and> er_Result (runParallelRound parseFloat world completion tasks ! i) =
             (measureRequest parseFloat (world i))\<lparr>Index := task_Index (tasks ! i)\<rparr>
         \<and> (\<forall>j < length tasks.
               er_Result (runParallelRound parseFloat world completion tasks ! j) =
                 (measureRequest parseFloat (world j))\<lparr>Index := task_Index (tasks ! j)\<rparr>)"
proof -
  have "\<forall>j < length tasks.
               er_Result (runParallelRound parseFloat world completion tasks ! j) =
                 (measureRequest parseFloat (world j))\<lparr>Index := task_Index (tasks ! j)\<rparr>"
    by (simp add: runParallelRound_eq [OF assms(3)] stamped_def)
  moreover have "length (runParallelRound parseFloat world completion tasks) = length tasks"
    by (simp add: runParallelRound_eq [OF assms(3)])
  ultimately show ?thesis
    using measureRequest_failed [OF assms(1), of parseFloat] assms(2) by simp
qed


lemma length_example_tasks: "length (example_tasks r) = 2"
  by (simp add: example_tasks_def example_endpoints_def buildTasks_def edge_def
      HTTP1_def HTTP2_def HTTP3_def)

theorem failed_probe_is_data_witness:
  "failed_exchange (example_world 3 0) \<and> 0 < length (example_tasks 3)
   \<and> is_completion_order [1, 0] (length (example_tasks 3))
   \<and> TTFB (measureRequest ParseFloat (example_world 3 0)) = 0
   \<and> Error (measureRequest ParseFloat (example_world 3 0)) \<noteq> []
   \<and> length (runParallelRound ParseFloat (example_world 3) [1, 0] (example_tasks 3)) = 2
   \<and> er_Result (runParallelRound ParseFloat (example_world 3) [1, 0] (example_tasks 3) ! 1) =
       (measureRequest ParseFloat (reply (Some ''0.045s'')))\<lparr>Index := 3\<rparr>"
proof -
  have f: "failed_exchange (example_world 3 0)"
    by (simp add: example_world_def failed_exchange_def)
  have l: "0 < length (example_tasks 3)" by (simp add: length_example_tasks)
  have c: "is_completion_order [1, 0] (length (example_tasks 3))"
    by (auto simp: is_completion_order_def length_example_tasks)
  have i: "task_Index (example_tasks 3 ! 1) = 3"
    by (simp add: example_tasks_def example_endpoints_def buildTasks_def edge_def
        HTTP1_def HTTP2_def HTTP3_def)
  have w: "example_world 3 1 = reply (Some ''0.045s'')" by (simp add: example_world_def)
  from failed_probe_is_data
         [where world = "example_world 3" and i = 0 and parseFloat = ParseFloat, OF f l c]
       f l c i w
  show ?thesis
    by (simp add: length_example_tasks)
qed

lemma buildClients_endpoints:
  "map ec_Endpoint (fst (buildClients splitHostPort timeout eps)) =
     filter (\<lambda>e. supported (Protocol e)) eps"
  by (induction eps) (auto simp: supported_def Let_def split: prod.splits)

lemma buildClients_unsupported:
  "snd (buildClients splitHostPort timeout eps) =
     map Protocol (filter (\<lambda>e. \<not> supported (Protocol e)) eps)"
  by (induction eps) (auto simp: supported_def Let_def split: prod.splits)

lemma buildClients_dial:
  assumes "ec \<in> set (fst (buildClients splitHostPort timeout eps))"
  shows "DialTarget (ec_Client ec) = forcedDial splitHostPort (IP (ec_Endpoint ec))"
  using assms
  by (induction eps)
     (auto simp: Let_def createHTTP1Client_def createHTTP2Client_def createHTTP3Client_def
        split: prod.splits if_splits)

lemma init_fold_lookup:
  "fold (\<lambda>ec m. m(endpointKey (ec_Endpoint ec) \<mapsto> [])) clients m0 k =
     (if k \<in> set (map (\<lambda>ec. endpointKey (ec_Endpoint ec)) clients) then Some [] else m0 k)"
  by (induction clients arbitrary: m0) auto

lemma initResults_lookup:
  "initResults clients k =
     (if k \<in> set (map (\<lambda>ec. endpointKey (ec_Endpoint ec)) clients) then Some [] else None)"
  by (simp add: initResults_def init_fold_lookup)

lemma fold_collect_lookup:
  "fold collect ers m k =
     (if k \<in> set (map (\<lambda>er. endpointKey (er_Endpoint er)) ers)
      then Some ((case m k of None \<Rightarrow> [] | Some rs \<Rightarrow> rs)
                 @ map er_Result (filter (\<lambda>er. endpointKey (er_Endpoint er) = k) ers))
      else m k)"
proof (induction ers arbitrary: m)
  case Nil
  then show ?case by simp
next
  case (Cons e es)
  show ?case
    by (simp add: Cons.IH [of "collect e m"])
       (auto simp: collect_def Let_def filter_empty_conv split: option.splits
          intro: rev_image_eqI)
qed

lemma filter_upt_single:
  assumes "j < n" and "\<forall>i < n. P i \<longleftrightarrow> i = j"
  shows "filter P [0..<n] = [j]"
proof -
  have "filter P [0..<n] = filter (\<lambda>i. i = j) [0..<n]"
    using assms(2) by (intro filter_cong) auto
  also from assms(1) have "\<dots> = [j]" by (induction n) auto
  finally show ?thesis .
qed

lemma round_results_for_key:
  assumes keys: "distinct (map (\<lambda>ec. endpointKey (ec_Endpoint ec)) clients)"
      and j: "j < length clients"
      and comp: "is_completion_order completion (length clients)"
  shows "map er_Result
           (filter (\<lambda>er. endpointKey (er_Endpoint er) = endpointKey (ec_Endpoint (clients ! j)))
              (runParallelRound parseFloat w completion (buildTasks clients url domain r)))
         = [stamped parseFloat (w j) r]"
    and "endpointKey (ec_Endpoint (clients ! j))
           \<in> set (map (\<lambda>er. endpointKey (er_Endpoint er))
                (runParallelRound parseFloat w completion (buildTasks clients url domain r)))"
proof -
  let ?tasks = "buildTasks clients url domain r"
  let ?k = "endpointKey (ec_Endpoint (clients ! j))"
  have len: "length ?tasks = length clients" by (simp add: buildTasks_def)
  have run: "runParallelRound parseFloat w completion ?tasks =
           map (\<lambda>i. \<lparr>er_Endpoint = task_Endpoint (?tasks ! i),
                      er_Result = stamped parseFloat (w i) (task_Index (?tasks ! i))\<rparr>)
               [0..<length clients]"
    using runParallelRound_eq [of completion ?tasks parseFloat w] comp len by simp
  have uniq: "\<forall>i < length clients.
                endpointKey (task_Endpoint (?tasks ! i)) = ?k \<longleftrightarrow> i = j"
  proof (intro allI impI)
    fix i assume i: "i < length clients"
    have "endpointKey (ec_Endpoint (clients ! i)) = ?k \<longleftrightarrow> i = j"
      using nth_eq_iff_index_eq [OF keys, of i j] i j by simp
    with i show "endpointKey (task_Endpoint (?tasks ! i)) = ?k \<longleftrightarrow> i = j"
      by (simp add: buildTasks_def)
  qed
  have f: "filter (\<lambda>i. endpointKey (task_Endpoint (?tasks ! i)) = ?k) [0..<length clients] = [j]"
    by (rule filter_upt_single [OF j uniq])
  from j have idx: "task_Index (?tasks ! j) = r" by (simp add: buildTasks_def)
  have "filter (\<lambda>er. endpointKey (er_Endpoint er) = ?k)
              (runParallelRound parseFloat w completion ?tasks) =
        map (\<lambda>i. \<lparr>er_Endpoint = task_Endpoint (?tasks ! i),
                      er_Result = stamped parseFloat (w i) (task_Index (?tasks ! i))\<rparr>)
            (filter (\<lambda>i. endpointKey (task_Endpoint (?tasks ! i)) = ?k) [0..<length clients])"
    unfolding run by (simp only: filter_map o_def EndpointResult.simps)
  then show "map er_Result (filter (\<lambda>er. endpointKey (er_Endpoint er) = ?k)
              (runParallelRound parseFloat w completion ?tasks)) = [stamped parseFloat (w j) r]"
    by (simp only: f idx list.map EndpointResult.simps)
  have "runParallelRound parseFloat w completion ?tasks ! j
          \<in> set (runParallelRound parseFloat w completion ?tasks)"
    using j by (intro nth_mem) (simp add: run)
  moreover have "endpointKey (er_Endpoint (runParallelRound parseFloat w completion ?tasks ! j))
                   = ?k"
    using j unfolding run by (simp add: buildTasks_def)
  ultimately show "?k \<in> set (map (\<lambda>er. endpointKey (er_Endpoint er))
                (runParallelRound parseFloat w completion ?tasks))"
    by (metis (no_types, lifting) image_eqI set_map)
qed


lemma round_step_lookup:
  assumes keys: "distinct (map (\<lambda>ec. endpointKey (ec_Endpoint ec)) clients)"
      and j: "j < length clients"
      and comp: "is_completion_order completion (length clients)"
      and m: "m (endpointKey (ec_Endpoint (clients ! j))) = Some rs"
  shows "fold collect
           (runParallelRound parseFloat w completion (buildTasks clients url domain r)) m
           (endpointKey (ec_Endpoint (clients ! j)))
         = Some (rs @ [stamped parseFloat (w j) r])"
  using round_results_for_key [OF keys j comp, of parseFloat w url domain r] m
  by (simp only: fold_collect_lookup if_True option.case)

lemma roundLoop_sequences:
  assumes keys: "distinct (map (\<lambda>ec. endpointKey (ec_Endpoint ec)) clients)"
      and comp: "\<forall>r. is_completion_order (completion r) (length clients)"
      and j: "j < length clients"
  shows "nat (n + 1 - r) = k \<Longrightarrow> 1 \<le> r \<Longrightarrow> r \<le> n + 1 \<Longrightarrow>
         (\<forall>j < length clients. m (endpointKey (ec_Endpoint (clients ! j))) =
             Some (map (\<lambda>q. stamped parseFloat (world q j) q) [1..r - 1])) \<Longrightarrow>
         roundLoop parseFloat world completion clients url domain n r m
             (endpointKey (ec_Endpoint (clients ! j))) =
           Some (map (\<lambda>q. stamped parseFloat (world q j) q) [1..n])"
proof (induction k arbitrary: r m)
  case 0
  then have "r = n + 1" by simp
  with 0(4) j show ?case by (simp add: roundLoop.simps)
next
  case (Suc k)
  then have le: "r \<le> n" by simp
  let ?m' = "fold collect
               (runParallelRound parseFloat (world r) (completion r)
                  (buildTasks clients url domain r)) m"
  have step: "roundLoop parseFloat world completion clients url domain n r m =
              roundLoop parseFloat world completion clients url domain n (r + 1) ?m'"
    using le by (subst roundLoop.simps) (simp add: Let_def)
  have inv: "\<forall>j < length clients. ?m' (endpointKey (ec_Endpoint (clients ! j))) =
             Some (map (\<lambda>q. stamped parseFloat (world q j) q) [1..(r + 1) - 1])"
  proof (intro allI impI)
    fix i assume i: "i < length clients"
    from Suc.prems(4) i
    have "m (endpointKey (ec_Endpoint (clients ! i))) =
             Some (map (\<lambda>q. stamped parseFloat (world q i) q) [1..r - 1])" by simp
    have mi: "m (endpointKey (ec_Endpoint (clients ! i))) =
             Some (map (\<lambda>q. stamped parseFloat (world q i) q) [1..r - 1])" by fact
    from comp have cr: "is_completion_order (completion r) (length clients)" by simp
    from round_step_lookup [where m = m, OF keys i cr mi]
    have "?m' (endpointKey (ec_Endpoint (clients ! i))) =
            Some (map (\<lambda>q. stamped parseFloat (world q i) q) [1..r - 1]
                  @ [stamped parseFloat (world r i) r])" by simp
    moreover from Suc.prems(2) have "[1..r] = [1..r - 1] @ [r]" by (simp add: upto_rec2)
    ultimately show "?m' (endpointKey (ec_Endpoint (clients ! i))) =
             Some (map (\<lambda>q. stamped parseFloat (world q i) q) [1..(r + 1) - 1])" by simp
  qed
  from Suc.prems have "nat (n + 1 - (r + 1)) = k" "1 \<le> r + 1" "r + 1 \<le> n + 1" by simp_all
  from Suc.IH [OF this inv] step show ?case by simp
qed

lemma roundLoop_from_start:
  assumes keys: "distinct (map (\<lambda>ec. endpointKey (ec_Endpoint ec)) clients)"
      and comp: "\<forall>r. is_completion_order (completion r) (length clients)"
      and j: "j < length clients"
  shows "roundLoop parseFloat world completion clients url domain n 1 (initResults clients)
             (endpointKey (ec_Endpoint (clients ! j))) =
           Some (map (\<lambda>q. stamped parseFloat (world q j) q) [1..n])"
proof (cases "0 \<le> n")
  case True
  have init: "\<forall>j < length clients.
                initResults clients (endpointKey (ec_Endpoint (clients ! j))) =
                  Some (map (\<lambda>q. stamped parseFloat (world q j) q) [1..1 - 1])"
    by (simp add: initResults_lookup)
  from True have "(1::int) \<le> 1" "1 \<le> n + 1" by simp_all
  from roundLoop_sequences [OF keys comp j refl this init] show ?thesis .
next
  case False
  then have "roundLoop parseFloat world completion clients url domain n 1 (initResults clients)
               = initResults clients"
    by (subst roundLoop.simps) simp
  with False j show ?thesis by (simp add: initResults_lookup)
qed

lemma Index_stamped: "Index (stamped parseFloat ex i) = i"
  by (simp add: stamped_def)

lemma campaign_clients_keys:
  assumes "distinct (map endpointKey (Endpoints config))"
  shows "distinct (map (\<lambda>ec. endpointKey (ec_Endpoint ec))
           (fst (buildClients splitHostPort (Config_Timeout config) (Endpoints config))))"
proof -
  have "map (\<lambda>ec. endpointKey (ec_Endpoint ec))
           (fst (buildClients splitHostPort (Config_Timeout config) (Endpoints config)))
        = map endpointKey (map ec_Endpoint
           (fst (buildClients splitHostPort (Config_Timeout config) (Endpoints config))))"
    by (simp add: o_def)
  also have "\<dots> = map endpointKey (filter (\<lambda>e. supported (Protocol e)) (Endpoints config))"
    by (simp only: buildClients_endpoints)
  finally show ?thesis using assms by (simp add: distinct_map_filter)
qed

text \<open>
  When the configured endpoints have pairwise different keys (name and protocol), each
  client's result sequence after the campaign consists of the samples of its own probes
  of rounds 1 to \<open>TestCount\<close> in that order, for every completion order of the probes
  within the rounds: one sample per round, the sample at position \<open>i\<close> (counted from 1)
  carrying round index \<open>i\<close>.
\<close>

lemma round_order_with_distinct_keys:
  assumes "distinct (map endpointKey (Endpoints config))"
      and "campaign parseFloat splitHostPort world completion config =
             (clients, unsupported, endpointResults)"
      and "\<forall>r. is_completion_order (completion r) (length clients)"
      and "j < length clients"
  shows "resultsOf endpointResults (ec_Endpoint (clients ! j)) =
           map (\<lambda>r. stamped parseFloat (world r j) r) [1..TestCount config]
         \<and> length (resultsOf endpointResults (ec_Endpoint (clients ! j))) =
             nat (TestCount config)
         \<and> (\<forall>i < length (resultsOf endpointResults (ec_Endpoint (clients ! j))).
               Index (resultsOf endpointResults (ec_Endpoint (clients ! j)) ! i) = int i + 1)"
proof -
  let ?url = "''https://'' @ Domain config @ Path config"
  from assms(2)
  have cl: "clients = fst (buildClients splitHostPort (Config_Timeout config) (Endpoints config))"
    and er: "endpointResults =
               roundLoop parseFloat world completion clients ?url (Domain config)
                 (TestCount config) 1 (initResults clients)"
    by (auto simp: campaign_def Let_def split: prod.splits)
  have keys: "distinct (map (\<lambda>ec. endpointKey (ec_Endpoint ec)) clients)"
    unfolding cl by (rule campaign_clients_keys [OF assms(1)])
  have seq: "resultsOf endpointResults (ec_Endpoint (clients ! j)) =
           map (\<lambda>r. stamped parseFloat (world r j) r) [1..TestCount config]"
    unfolding er resultsOf_def
    by (simp only: roundLoop_from_start [OF keys assms(3) assms(4)] option.case)
  have len: "length (resultsOf endpointResults (ec_Endpoint (clients ! j))) =
             nat (TestCount config)"
    by (simp add: seq)
  have idx: "Index (resultsOf endpointResults (ec_Endpoint (clients ! j)) ! i) = int i + 1"
    if "i < length (resultsOf endpointResults (ec_Endpoint (clients ! j)))" for i
  proof -
    from that len have i: "i < nat (TestCount config)" by simp
    then have "[1..TestCount config] ! i = 1 + int i" by (intro nth_upto) simp
    with i show ?thesis by (simp add: seq Index_stamped)
  qed
  from seq len idx show ?thesis by blast
qed

lemma campaign_parts:
  "fst (campaign parseFloat splitHostPort world completion config) =
     fst (buildClients splitHostPort (Config_Timeout config) (Endpoints config))"
  "fst (snd (campaign parseFloat splitHostPort world completion config)) =
     snd (buildClients splitHostPort (Config_Timeout config) (Endpoints config))"
  "snd (snd (campaign parseFloat splitHostPort world completion config)) =
     roundLoop parseFloat world completion
       (fst (buildClients splitHostPort (Config_Timeout config) (Endpoints config)))
       (''https://'' @ Domain config @ Path config) (Domain config) (TestCount config) 1
       (initResults (fst (buildClients splitHostPort (Config_Timeout config) (Endpoints config))))"
  by (simp_all add: campaign_def Let_def split: prod.splits)

lemma example_clients:
  "map ec_Endpoint (fst (buildClients example_split t example_endpoints)) = example_endpoints"
  "map ec_Endpoint (fst (buildClients example_split t twin_endpoints)) = twin_endpoints"
  by (simp_all add: buildClients_endpoints example_endpoints_def twin_endpoints_def edge_def
      supported_def HTTP1_def HTTP2_def HTTP3_def)

lemma example_completion_order: "is_completion_order (example_completion r) 2"
  by (auto simp: is_completion_order_def example_completion_def)

lemma round_order_example:
  "distinct (map endpointKey (Endpoints (example_config example_endpoints 3)))
   \<and> (\<forall>r. is_completion_order (example_completion r)
           (length (fst (campaign ParseFloat example_split example_world example_completion
                      (example_config example_endpoints 3)))))
   \<and> 0 < length (fst (campaign ParseFloat example_split example_world example_completion
                      (example_config example_endpoints 3)))
   \<and> map Index
        (resultsOf
           (snd (snd (campaign ParseFloat example_split example_world example_completion
                        (example_config example_endpoints 3))))
           (edge ''A'' ''192.0.2.1'' HTTP2)) = [1, 2, 3]"
proof -
  let ?c = "campaign ParseFloat example_split example_world example_completion
              (example_config example_endpoints 3)"
  have eps: "map ec_Endpoint (fst ?c) = example_endpoints"
    by (simp add: campaign_parts example_config_def example_clients)
  then have "length (map ec_Endpoint (fst ?c)) = 2" by (simp add: example_endpoints_def)
  then have len: "length (fst ?c) = 2" by simp
  have d: "distinct (map endpointKey (Endpoints (example_config example_endpoints 3)))"
    by (simp add: example_config_def example_endpoints_def edge_def endpointKey_def)
  have c: "\<forall>r. is_completion_order (example_completion r) (length (fst ?c))"
    by (simp add: len example_completion_order)
  have j: "0 < length (fst ?c)" by (simp add: len)
  have "map ec_Endpoint (fst ?c) ! 0 = edge ''A'' ''192.0.2.1'' HTTP2"
    unfolding eps by (simp add: example_endpoints_def)
  with j have e: "ec_Endpoint (fst ?c ! 0) = edge ''A'' ''192.0.2.1'' HTTP2" by simp
  have n: "TestCount (example_config example_endpoints 3) = 3" by (simp add: example_config_def)
  have u: "[1..3] = [1, 2, 3 :: int]" by (simp add: upto.simps)
  have "?c = (fst ?c, fst (snd ?c), snd (snd ?c))" by simp
  from round_order_with_distinct_keys [OF d this c j] d c j show ?thesis
    by (simp only: e n u) (simp add: Index_stamped)
qed


lemma twin_round:
  assumes "map ec_Endpoint clients = twin_endpoints"
  shows "map er_Result
           (filter (\<lambda>er. endpointKey (er_Endpoint er) = endpointKey (edge ''A'' ''192.0.2.1'' HTTP2))
              (runParallelRound parseFloat w (example_completion r)
                 (buildTasks clients url domain r)))
         = [stamped parseFloat (w 0) r, stamped parseFloat (w 1) r]"
    and "endpointKey (edge ''A'' ''192.0.2.1'' HTTP2)
           \<in> set (map (\<lambda>er. endpointKey (er_Endpoint er))
                (runParallelRound parseFloat w (example_completion r)
                   (buildTasks clients url domain r)))"
proof -
  from assms obtain c0 c1 where cl: "clients = [c0, c1]"
    and e: "ec_Endpoint c0 = edge ''A'' ''192.0.2.1'' HTTP2"
           "ec_Endpoint c1 = edge ''A'' ''192.0.2.2'' HTTP2"
    by (auto simp: twin_endpoints_def map_eq_Cons_conv)
  have len: "length (buildTasks clients url domain r) = 2" by (simp add: cl buildTasks_def)
  have u: "[0..<2] = [0, Suc 0]" by (simp add: upt_rec)
  have k: "endpointKey (edge ''A'' ''192.0.2.2'' HTTP2) = endpointKey (edge ''A'' ''192.0.2.1'' HTTP2)"
    by (simp add: endpointKey_def edge_def)
  have run: "runParallelRound parseFloat w (example_completion r)
               (buildTasks clients url domain r) =
             [\<lparr>er_Endpoint = edge ''A'' ''192.0.2.1'' HTTP2,
               er_Result = stamped parseFloat (w 0) r\<rparr>,
              \<lparr>er_Endpoint = edge ''A'' ''192.0.2.2'' HTTP2,
               er_Result = stamped parseFloat (w 1) r\<rparr>]"
    using runParallelRound_eq [of "example_completion r" "buildTasks clients url domain r"
            parseFloat w] example_completion_order [of r]
    by (simp add: len u) (simp add: cl e buildTasks_def)
  show "map er_Result
           (filter (\<lambda>er. endpointKey (er_Endpoint er) = endpointKey (edge ''A'' ''192.0.2.1'' HTTP2))
              (runParallelRound parseFloat w (example_completion r)
                 (buildTasks clients url domain r)))
         = [stamped parseFloat (w 0) r, stamped parseFloat (w 1) r]"
    by (simp add: run k)
  show "endpointKey (edge ''A'' ''192.0.2.1'' HTTP2)
           \<in> set (map (\<lambda>er. endpointKey (er_Endpoint er))
                (runParallelRound parseFloat w (example_completion r)
                   (buildTasks clients url domain r)))"
    by (simp add: run)
qed

text \<open>
  C6. The sample at position \<open>i\<close> (counted from 1) of an endpoint's result sequence is
  to carry round index \<open>i\<close>. The program breaks this when two configured endpoints have
  the same name and protocol: their results go to one sequence under the shared key.
  For two such endpoints at different addresses and a test count of 2, the sequence
  that each of them reads has four samples with the round indices 1, 1, 2, 2, so
  position 2 carries round 1 and position 3 carries round 2.
\<close>

theorem twin_endpoints_share_sequence:
  "TestCount (example_config twin_endpoints 2) = 2
   \<and> map Index
     (resultsOf
        (snd (snd (campaign ParseFloat example_split example_world example_completion
                     (example_config twin_endpoints 2))))
        (edge ''A'' ''192.0.2.1'' HTTP2)) = [1, 1, 2, 2]
   \<and> map Index
     (resultsOf
        (snd (snd (campaign ParseFloat example_split example_world example_completion
                     (example_config twin_endpoints 2))))
        (edge ''A'' ''192.0.2.2'' HTTP2)) = [1, 1, 2, 2]"
proof -
  let ?clients = "fst (buildClients example_split 30000000000 twin_endpoints)"
  let ?K = "endpointKey (edge ''A'' ''192.0.2.1'' HTTP2)"
  let ?url = "''https://cdn.example/api/health''"
  have eps: "map ec_Endpoint ?clients = twin_endpoints" by (rule example_clients)
  have "?K \<in> set (map endpointKey (map ec_Endpoint ?clients))"
    unfolding eps by (simp add: twin_endpoints_def)
  then have m0: "initResults ?clients ?K = Some []"
    by (simp add: initResults_lookup o_def)
  let ?m1 = "fold collect
               (runParallelRound ParseFloat (example_world 1) (example_completion 1)
                  (buildTasks ?clients ?url ''cdn.example'' 1)) (initResults ?clients)"
  let ?m2 = "fold collect
               (runParallelRound ParseFloat (example_world 2) (example_completion 2)
                  (buildTasks ?clients ?url ''cdn.example'' 2)) ?m1"
  have m1: "?m1 ?K = Some [stamped ParseFloat (example_world 1 0) 1,
                           stamped ParseFloat (example_world 1 1) 1]"
    using twin_round [OF eps, of ParseFloat "example_world 1" 1 ?url "''cdn.example''"] m0
    by (simp only: fold_collect_lookup if_True option.case append_Nil)
  have m2: "?m2 ?K = Some [stamped ParseFloat (example_world 1 0) 1,
                           stamped ParseFloat (example_world 1 1) 1,
                           stamped ParseFloat (example_world 2 0) 2,
                           stamped ParseFloat (example_world 2 1) 2]"
    using twin_round [OF eps, of ParseFloat "example_world 2" 2 ?url "''cdn.example''"] m1
    by (simp only: fold_collect_lookup if_True option.case append_Cons append_Nil)
  have loop: "roundLoop ParseFloat example_world example_completion ?clients ?url
                ''cdn.example'' 2 1 (initResults ?clients) = ?m2"
    by (simp add: roundLoop.simps [of _ _ _ _ _ _ 2 1] roundLoop.simps [of _ _ _ _ _ _ 2 2]
          roundLoop.simps [of _ _ _ _ _ _ 2 3] Let_def)
  have k: "endpointKey (edge ''A'' ''192.0.2.2'' HTTP2) = ?K"
    by (simp add: endpointKey_def edge_def)
  have first: "map Index
     (resultsOf
        (snd (snd (campaign ParseFloat example_split example_world example_completion
                     (example_config twin_endpoints 2))))
        (edge ''A'' ''192.0.2.1'' HTTP2)) = [1, 1, 2, 2]"
    unfolding campaign_parts
    by (simp add: example_config_def) (simp add: loop resultsOf_def m2 Index_stamped)
  then have "map Index
     (resultsOf
        (snd (snd (campaign ParseFloat example_split example_world example_completion
                     (example_config twin_endpoints 2))))
        (edge ''A'' ''192.0.2.2'' HTTP2)) = [1, 1, 2, 2]"
    by (simp only: resultsOf_def k)
  with first show ?thesis by (simp add: example_config_def)
qed

text \<open>
  C9 (as amended). The factories accept any override address string and have no error
  result, and \<open>parseProtocol\<close> maps every string to one of the three selectors (an
  unrecognised one to HTTP/1.1). So every endpoint whose selector is one of the three
  gets a handle and takes part in the campaign, in configuration order, and its handle
  dials the configured override string joined with the port of the requested address
  (443 when that address has none), never the requested host. An endpoint with any other
  selector value is reported as unsupported and left out, and the others stay.
\<close>

theorem handles_built_without_validation:
  "supported (parseProtocol s)
   \<and> (s \<notin> set [''HTTP/3'', ''http3'', ''h3'', ''HTTP/2'', ''http2'', ''h2'']
        \<longrightarrow> parseProtocol s = HTTP1)
   \<and> map ec_Endpoint (fst (buildClients splitHostPort timeout eps)) =
       filter (\<lambda>e. supported (Protocol e)) eps
   \<and> snd (buildClients splitHostPort timeout eps) =
       map Protocol (filter (\<lambda>e. \<not> supported (Protocol e)) eps)
   \<and> (\<forall>ec \<in> set (fst (buildClients splitHostPort timeout eps)). \<forall>addr.
         DialTarget (ec_Client ec) addr =
           JoinHostPort (IP (ec_Endpoint ec))
             (case splitHostPort addr of None \<Rightarrow> ''443'' | Some (host, port) \<Rightarrow> port))"
proof -
  have "supported (parseProtocol s)" by (simp add: supported_def parseProtocol_def)
  moreover have "s \<notin> set [''HTTP/3'', ''http3'', ''h3'', ''HTTP/2'', ''http2'', ''h2'']
        \<longrightarrow> parseProtocol s = HTTP1"
    by (simp add: parseProtocol_def)
  moreover have "\<forall>ec \<in> set (fst (buildClients splitHostPort timeout eps)). \<forall>addr.
         DialTarget (ec_Client ec) addr =
           JoinHostPort (IP (ec_Endpoint ec))
             (case splitHostPort addr of None \<Rightarrow> ''443'' | Some (host, port) \<Rightarrow> port)"
    by (simp add: buildClients_dial forcedDial_def)
  ultimately show ?thesis
    by (simp only: buildClients_endpoints buildClients_unsupported simp_thms)
qed

theorem handles_built_without_validation_witness:
  "parseProtocol ''gopher'' = HTTP1
   \<and> map ec_Endpoint
     (fst (buildClients example_split 30000000000
        [edge ''A'' ''not-an-ip'' HTTP1, edge ''X'' ''192.0.2.9'' 7, edge ''B'' ''192.0.2.2'' HTTP3]))
     = [edge ''A'' ''not-an-ip'' HTTP1, edge ''B'' ''192.0.2.2'' HTTP3]
   \<and> snd (buildClients example_split 30000000000
        [edge ''A'' ''not-an-ip'' HTTP1, edge ''X'' ''192.0.2.9'' 7, edge ''B'' ''192.0.2.2'' HTTP3])
     = [7]
   \<and> map (\<lambda>ec. DialTarget (ec_Client ec) ''cdn.example:443'')
       (fst (buildClients example_split 30000000000
        [edge ''A'' ''not-an-ip'' HTTP1, edge ''X'' ''192.0.2.9'' 7, edge ''B'' ''192.0.2.2'' HTTP3]))
     = [''not-an-ip:443'', ''192.0.2.2:443'']"
proof -
  let ?eps = "[edge ''A'' ''not-an-ip'' HTTP1, edge ''X'' ''192.0.2.9'' 7,
               edge ''B'' ''192.0.2.2'' HTTP3]"
  let ?b = "buildClients example_split 30000000000 ?eps"
  note inst = handles_built_without_validation [of "''gopher''" example_split 30000000000 ?eps]
  have eps: "map ec_Endpoint (fst ?b) = [edge ''A'' ''not-an-ip'' HTTP1, edge ''B'' ''192.0.2.2'' HTTP3]"
    using inst by (simp add: edge_def supported_def HTTP1_def HTTP2_def HTTP3_def)
  have uns: "snd ?b = [7]"
    using inst by (simp add: edge_def supported_def HTTP1_def HTTP2_def HTTP3_def)
  have "map (\<lambda>ec. DialTarget (ec_Client ec) ''cdn.example:443'') (fst ?b) =
        map (\<lambda>ec. JoinHostPort (IP (ec_Endpoint ec)) ''443'') (fst ?b)"
    using inst by (intro map_cong refl) (simp add: example_split_def)
  also have "\<dots> = map (\<lambda>e. JoinHostPort (IP e) ''443'') (map ec_Endpoint (fst ?b))"
    by (simp add: o_def)
  also have "\<dots> = [''not-an-ip:443'', ''192.0.2.2:443'']"
    unfolding eps by (simp add: JoinHostPort_def edge_def)
  finally have dial: "map (\<lambda>ec. DialTarget (ec_Client ec) ''cdn.example:443'') (fst ?b) =
        [''not-an-ip:443'', ''192.0.2.2:443'']" .
  have "parseProtocol ''gopher'' = HTTP1" using inst by simp
  with eps uns dial show ?thesis by simp
qed

theorem unparseable_endpoint_gets_handle:
  "map ec_Endpoint
     (fst (buildClients example_split 30000000000
        [edge ''A'' ''not-an-ip'' (parseProtocol ''gopher'')]))
     = [edge ''A'' ''not-an-ip'' HTTP1]
   \<and> snd (buildClients example_split 30000000000
        [edge ''A'' ''not-an-ip'' (parseProtocol ''gopher'')]) = []
   \<and> DialTarget
       (ec_Client (hd (fst (buildClients example_split 30000000000
          [edge ''A'' ''not-an-ip'' (parseProtocol ''gopher'')]))))
       ''cdn.example:443'' = ''not-an-ip:443''"
  by (simp add: parseProtocol_def edge_def createHTTP1Client_def forcedDial_def
      JoinHostPort_def example_split_def)

section \<open>The summary of a campaign with five successful samples\<close>

text \<open>
  Five responses with times to first byte of 100, 120, 110, 130 and 90 ms and an origin
  time of 50 ms each: the CDN latencies are 50, 70, 60, 80 and 40 ms and their median
  is 60 ms.
\<close>

lemma scenario_A_sample:
  "stamped ParseFloat
     (Responds (t * 1000000) False (reply_response (Some ''0.050s''))) i =
   \<lparr>Index = i, TTFB = t * 1000000, XResponseTime = 50,
    CDNLatency = real_of_int (Microseconds (t * 1000000)) / 1000 - 50, StatusCode = 200, Reused = False,
    ActualProto = ''HTTP/2.0'', Error = []\<rparr>"
proof -
  have t: "TrimSpace (TrimSuffix ''0.050s'' ''s'') = ''0.050''" by code_simp
  have p: "ParseFloat ''0.050'' = Some (50 / 1000)"
    by (simp add: ParseFloat_def split_sign_def is_digit_def parse_exponent_def
      digits_value_def scale10_def)
  show ?thesis
    by (simp add: stamped_def measureRequest_def reply_response_def Header_Get_def t p
        RequestResult_zero_def)
qed

lemma scenario_A_summary:
  "calculateSummary (edge ''A'' ''192.0.2.1'' HTTP2)
     (map (\<lambda>(i, t). stamped ParseFloat
             (Responds (t * 1000000) False (reply_response (Some ''0.050s''))) i)
        [(1, 100), (2, 120), (3, 110), (4, 130), (5, 90)]) =
   Inr \<lparr>EndpointName = ''A'', Summary_Protocol = ''HTTP/2'',
        TotalTests = 5, SuccessCount = 5, FailCount = 0, HasCDN = True,
        TTFBAvg = 110, TTFBMin = 90, TTFBMax = 130,
        TTFBP50 = 110, TTFBP90 = 120, TTFBP95 = 120, TTFBP99 = 120,
        CDNLatencyAvg = 60, CDNLatencyMin = 40, CDNLatencyMax = 80,
        CDNLatencyP50 = 60, CDNLatencyP90 = 70, CDNLatencyP95 = 70, CDNLatencyP99 = 70,
        XResponseTimeAvg = 50\<rparr>"
proof -
  have m: "Microseconds 100000000 = 100000" "Microseconds 120000000 = 120000"
    "Microseconds 110000000 = 110000" "Microseconds 130000000 = 130000"
    "Microseconds 90000000 = 90000"
    by code_simp+
  have r: "f64_round (f64_round 4 * f64_round (1 / 2)) = 2"
    "f64_round (f64_round 4 * f64_round (9 / 10)) = 8106479329266893 / 2251799813685248"
    "f64_round (f64_round 4 * f64_round (19 / 20)) = 4278419646001971 / 1125899906842624"
    "f64_round (f64_round 4 * f64_round (99 / 100)) = 4458563631096791 / 1125899906842624"
    by code_simp+
  show ?thesis
    by (simp add: scenario_A_sample m r calculateSummary_def newSummary_def tally_step_def
        distribution_def percentile_def index_at_def fdiv_def bind_err_def float_to_int_def
        edge_def Protocol_String_def HTTP1_def HTTP2_def Let_def)
qed

end
